theory Spec2Isabelle
  imports Complex_Main "HOL-Library.Word"
begin

section \<open>The upload form of the calorie counter (frontend/src/App.tsx)\<close>

text \<open>
  The component \<open>App\<close> keeps five state cells (\<open>fileList\<close>, \<open>uploading\<close>,
  \<open>imageUrl\<close>, \<open>result\<close>, \<open>error\<close>), three event handlers (\<open>onRemove\<close>,
  \<open>beforeUpload\<close>, \<open>handleUpload\<close>) and one rendering expression. Each handler is
  a function from the state to the new state and the list of effects it performs, in
  program order. TypeScript's types are erased when the program runs, so whatever
  \<open>response.json()\<close> returns is a plain JSON value, and the coercions that JavaScript
  applies to it (\<open>||\<close>, \<open>&&\<close>, \<open>?:\<close>, \<open>new Error(v)\<close>) are written out.
\<close>

subsection \<open>JSON values and the coercions the code applies to them\<close>

text \<open>
  The value of \<open>JSON.parse\<close>. The number type is a parameter: the code only tests a
  number for truthiness and converts it to a string, and both operations come with the
  \<open>engine\<close> below. An object is the list of its own properties.
\<close>

datatype 'n json =
    JNull
  | JBool bool
  | JNum 'n
  | JStr string
  | JArr "'n json list"
  | JObj "(string \<times> 'n json) list"

text \<open>
  What the JavaScript engine supplies: which numbers are zero (the falsy ones among
  parsed numbers), \<open>Number.prototype.toString\<close>, and the text of the TypeError it
  raises when an object has no primitive value.
\<close>

record 'n engine =
  number_is_zero :: "'n \<Rightarrow> bool"
  number_to_string :: "'n \<Rightarrow> string"
  cannot_convert_message :: string

text \<open>An evaluation either returns a value or throws a TypeError.\<close>

datatype 'a completion = Throw | Return 'a

text \<open>ToBoolean. A property that is missing reads as \<open>undefined\<close>, here \<open>None\<close>.\<close>

fun truthy :: "'n engine \<Rightarrow> 'n json \<Rightarrow> bool" where
  "truthy E JNull = False"
| "truthy E (JBool b) = b"
| "truthy E (JNum n) = (\<not> number_is_zero E n)"
| "truthy E (JStr s) = (s \<noteq> [])"
| "truthy E (JArr xs) = True"
| "truthy E (JObj kvs) = True"

fun truthy_prop :: "'n engine \<Rightarrow> 'n json option \<Rightarrow> bool" where
  "truthy_prop E None = False"
| "truthy_prop E (Some v) = truthy E v"

text \<open>
  Property access \<open>v.key\<close> for the keys this program reads (\<open>message\<close>, \<open>error\<close>,
  \<open>detected_food\<close>, \<open>main_ingredient\<close>, \<open>nutrition_info\<close>, \<open>name\<close>, \<open>calories\<close>,
  \<open>protein\<close>, \<open>carbs\<close>, \<open>fats\<close>, \<open>healthier_alternative\<close>): none of them is
  inherited from a prototype, so it is the own property of an object, \<open>undefined\<close> on a
  boolean, number, string or array, and a TypeError on \<open>null\<close>.
\<close>

fun get_prop :: "'n json \<Rightarrow> string \<Rightarrow> 'n json option completion" where
  "get_prop JNull key = Throw"
| "get_prop (JObj kvs) key = Return (map_of kvs key)"
| "get_prop v key = Return None"

text \<open>
  ToString, as \<open>new Error(v)\<close> applies it to its argument. A parsed object inherits
  \<open>Object.prototype.toString\<close> unless it has an own property \<open>toString\<close>, which is
  never callable in parsed JSON; OrdinaryToPrimitive then finds no primitive and throws.
  An array is joined with commas, \<open>null\<close> elements giving the empty string.
\<close>

fun to_string :: "'n engine \<Rightarrow> 'n json \<Rightarrow> string completion"
  and join :: "'n engine \<Rightarrow> 'n json list \<Rightarrow> string completion"
where
  "to_string E JNull = Return ''null''"
| "to_string E (JBool b) = Return (if b then ''true'' else ''false'')"
| "to_string E (JNum n) = Return (number_to_string E n)"
| "to_string E (JStr s) = Return s"
| "to_string E (JArr xs) = join E xs"
| "to_string E (JObj kvs) =
     (if ''toString'' \<in> fst ` set kvs then Throw else Return ''[object Object]'')"
| "join E [] = Return ''''"
| "join E (x # xs) =
     (case (if x = JNull then Return '''' else to_string E x) of
        Throw \<Rightarrow> Throw
      | Return a \<Rightarrow>
          (if xs = [] then Return a
           else (case join E xs of
                   Throw \<Rightarrow> Throw
                 | Return b \<Rightarrow> Return (a @ '','' @ b))))"

text \<open>The decimal numeral of a natural number, as a template literal prints it.\<close>

function string_of_nat :: "nat \<Rightarrow> string" where
  "string_of_nat n =
     (if n < 10 then [char_of (48 + n)]
      else string_of_nat (n div 10) @ [char_of (48 + n mod 10)])"
  by pat_completeness auto
termination
  by (relation "measure (\<lambda>n. n)") auto

declare string_of_nat.simps [simp del]

subsection \<open>Files, state and effects\<close>

text \<open>
  \<open>RcFile\<close>: the browser's File object with antd's \<open>uid\<close>. Its \<open>size\<close> is the number
  of its bytes.
\<close>

record rc_file =
  rc_uid :: string
  rc_name :: string
  rc_type :: string
  rc_bytes :: "8 word list"

definition rc_size :: "rc_file \<Rightarrow> nat" where
  "rc_size file = length (rc_bytes file)"

text \<open>
  \<open>UploadFile\<close>, with the fields the program writes. \<open>originFileObj\<close> is optional; when
  it is there it is an \<open>RcFile\<close>, hence a \<open>Blob\<close>, so \<open>instanceof Blob\<close> is the test
  for \<open>Some\<close>.
\<close>

record upload_file =
  uid :: string
  name :: string
  status :: string
  url :: string
  originFileObj :: "rc_file option"

text \<open>The five \<open>useState\<close> cells, with \<open>null\<close> as \<open>None\<close> (as \<open>JNull\<close> for \<open>result\<close>).\<close>

record 'n app_state =
  fileList :: "upload_file list"
  uploading :: bool
  imageUrl :: "string option"
  result :: "'n json"
  error :: "string option"

definition initial_state :: "'n app_state" where
  "initial_state =
     \<lparr>fileList = [], uploading = False, imageUrl = None, result = JNull, error = None\<rparr>"

text \<open>
  What a handler does to the world besides setting state: a toast of \<open>message.error\<close>,
  a FileReader started on a file, and a \<open>fetch\<close> with its url, method and FormData body.
  A FormData entry holds a file or a string.
\<close>

datatype form_value = FileValue rc_file | StringValue string

datatype effect =
    MessageError string
  | ReadAsDataURL rc_file
  | Fetch string string "(string \<times> form_value) list"

fun is_fetch :: "effect \<Rightarrow> bool" where
  "is_fetch (Fetch u m b) = True"
| "is_fetch e = False"

fun is_read :: "effect \<Rightarrow> bool" where
  "is_read (ReadAsDataURL f) = True"
| "is_read e = False"

subsection \<open>The upload control: \<open>onRemove\<close> and \<open>beforeUpload\<close> (lines 45-84)\<close>

definition MAX_FILE_SIZE_MB :: nat where
  "MAX_FILE_SIZE_MB = 4"

definition onRemove :: "'n app_state \<Rightarrow> 'n app_state" where
  "onRemove s = s\<lparr>fileList := [], imageUrl := None, error := None\<rparr>"

text \<open>Every path of \<open>beforeUpload\<close> returns \<open>Upload.LIST_IGNORE\<close>.\<close>

datatype before_upload_result = LIST_IGNORE

definition isJpgOrPng :: "rc_file \<Rightarrow> bool" where
  "isJpgOrPng file = (rc_type file = ''image/jpeg'' \<or> rc_type file = ''image/png'')"

text \<open>
  \<open>file.size / 1024 / 1024 < MAX_FILE_SIZE_MB\<close>. Dividing a double by 1024 only lowers
  its exponent, so for a size that is an exact double (below \<open>2 ^ 53\<close>) the quotient and
  the comparison are those of the real numbers.
\<close>

definition isUnderSizeLimit :: "rc_file \<Rightarrow> bool" where
  "isUnderSizeLimit file = (real (rc_size file) / 1024 / 1024 < real MAX_FILE_SIZE_MB)"

text \<open>
  \<open>blobUrl\<close> is what \<open>URL.createObjectURL(file)\<close> returns. The FileReader's \<open>onload\<close>
  runs later, as \<open>reader_onload\<close>.
\<close>

definition beforeUpload ::
  "string \<Rightarrow> rc_file \<Rightarrow> 'n app_state \<Rightarrow> before_upload_result \<times> 'n app_state \<times> effect list"
where
  "beforeUpload blobUrl file s =
     (if \<not> isJpgOrPng file then
        (LIST_IGNORE, s, [MessageError ''You can only upload JPG/PNG file!''])
      else if \<not> isUnderSizeLimit file then
        (LIST_IGNORE, s,
         [MessageError (''Image must be smaller than '' @ string_of_nat MAX_FILE_SIZE_MB
            @ ''MB for serverless functions!'')])
      else
        (LIST_IGNORE,
         s\<lparr>fileList :=
              [\<lparr>uid = rc_uid file, name = rc_name file, status = ''done'',
                url = blobUrl, originFileObj = Some file\<rparr>],
           error := None\<rparr>,
         [ReadAsDataURL file]))"

definition reader_onload :: "string option \<Rightarrow> 'n app_state \<Rightarrow> 'n app_state" where
  "reader_onload dataUrl s = s\<lparr>imageUrl := dataUrl\<rparr>"

subsection \<open>\<open>handleUpload\<close> (lines 86-130)\<close>

text \<open>
  What \<open>fetch\<close> settles to: a rejection with the message of its error, or a response
  with its status and what \<open>response.json()\<close> settles to.
\<close>

datatype 'n json_result = JsonRejects string | JsonResolves "'n json"

record 'n response =
  response_status :: nat
  response_json :: "'n json_result"

datatype 'n fetch_result = FetchRejects string | FetchResolves "'n response"

definition response_ok :: "'n response \<Rightarrow> bool" where
  "response_ok r = (200 \<le> response_status r \<and> response_status r \<le> 299)"

text \<open>
  The part of \<open>handleUpload\<close> before the \<open>await\<close> (lines 87-109). The third component
  tells whether the call is now suspended on its \<open>fetch\<close>.
\<close>

definition handleUpload_pre :: "'n app_state \<Rightarrow> 'n app_state \<times> effect list \<times> bool" where
  "handleUpload_pre s =
     (case fileList s of
        [] \<Rightarrow> (s, [MessageError ''Please select an image first!''], False)
      | file # rest \<Rightarrow>
          (case originFileObj file of
             Some blob \<Rightarrow>
               (s\<lparr>uploading := True, error := None\<rparr>,
                [Fetch ''/api/analyze'' ''POST'' [(''image'', FileValue blob)]], True)
           | None \<Rightarrow> (s, [MessageError ''Invalid file object''], False)))"

text \<open>The inner \<open>try\<close>/\<open>catch\<close> that computes \<open>errorMessage\<close> (lines 112-118).\<close>

definition status_text :: "'n response \<Rightarrow> 'n json" where
  "status_text r = JStr (''Error '' @ string_of_nat (response_status r))"

definition errorMessage :: "'n engine \<Rightarrow> 'n response \<Rightarrow> 'n json" where
  "errorMessage E r =
     (case response_json r of
        JsonRejects e \<Rightarrow> status_text r
      | JsonResolves errorData \<Rightarrow>
          (case get_prop errorData ''message'' of
             Throw \<Rightarrow> status_text r
           | Return m \<Rightarrow>
               (case m of
                  Some v \<Rightarrow> if truthy E v then v else
                    (case get_prop errorData ''error'' of
                       Throw \<Rightarrow> status_text r
                     | Return e \<Rightarrow>
                         (case e of
                            Some w \<Rightarrow> if truthy E w then w else status_text r
                          | None \<Rightarrow> status_text r))
                | None \<Rightarrow>
                    (case get_prop errorData ''error'' of
                       Throw \<Rightarrow> status_text r
                     | Return e \<Rightarrow>
                         (case e of
                            Some w \<Rightarrow> if truthy E w then w else status_text r
                          | None \<Rightarrow> status_text r)))))"

text \<open>The \<open>catch\<close> block (lines 125-126) and the \<open>finally\<close> block (line 128).\<close>

definition catch_block :: "string \<Rightarrow> 'n app_state \<Rightarrow> 'n app_state" where
  "catch_block msg s = s\<lparr>error := Some msg, result := JNull\<rparr>"

definition finally_block :: "'n app_state \<Rightarrow> 'n app_state" where
  "finally_block s = s\<lparr>uploading := False\<rparr>"

text \<open>
  The part of \<open>handleUpload\<close> after the \<open>await\<close> (lines 106-129), run on the state
  of that moment. On every path the state is written only after the last \<open>await\<close>
  (that of \<open>fetch\<close> or that of \<open>response.json()\<close>), so the writes form one step.
  \<open>new Error(errorMessage)\<close> converts its argument with ToString; when that throws,
  the TypeError is what the outer \<open>catch\<close> receives.
\<close>

definition handleUpload_post ::
  "'n engine \<Rightarrow> 'n fetch_result \<Rightarrow> 'n app_state \<Rightarrow> 'n app_state"
where
  "handleUpload_post E settled s =
     (case settled of
        FetchRejects msg \<Rightarrow> finally_block (catch_block msg s)
      | FetchResolves r \<Rightarrow>
          if \<not> response_ok r then
            (case to_string E (errorMessage E r) of
               Throw \<Rightarrow> finally_block (catch_block (cannot_convert_message E) s)
             | Return msg \<Rightarrow> finally_block (catch_block msg s))
          else
            (case response_json r of
               JsonRejects msg \<Rightarrow> finally_block (catch_block msg s)
             | JsonResolves data \<Rightarrow> finally_block (s\<lparr>result := data\<rparr>)))"

text \<open>One whole invocation, with nothing else happening while it waits.\<close>

definition handleUpload ::
  "'n engine \<Rightarrow> 'n fetch_result \<Rightarrow> 'n app_state \<Rightarrow> 'n app_state \<times> effect list"
where
  "handleUpload E settled s =
     (case handleUpload_pre s of
        (s1, effects, awaiting) \<Rightarrow>
          if awaiting then (handleUpload_post E settled s1, effects) else (s1, effects))"

subsection \<open>Rendering (lines 132-233)\<close>

text \<open>
  The element tree that \<open>App\<close> returns, as far as it depends on the state: the props
  and children that the state determines, with the JavaScript values passed to them
  as they are. Headings and other fixed text are left out.
\<close>

datatype icon = LoadingOutlined | UploadOutlined

text \<open>A \<open>Statistic\<close>: its title, its value and its suffix.\<close>

type_synonym 'n statistic = "string \<times> 'n json option \<times> string"

text \<open>
  The two branches of \<open>result.nutrition_info.error ? ... : ...\<close>: the error text
  alone, or the name followed by the row of statistics.
\<close>

datatype 'n nutrition_view =
    NutritionError "'n json option"
  | NutritionInformation "'n json option" "'n statistic list"

record 'n results_view =
  detected_foods :: "'n json option"
  main_ingredient_text :: "'n json option"
  nutrition :: "'n nutrition_view"
  alternative_text :: "'n json option"
  food_image :: "string option"

text \<open>
  \<open>{result && (...)}\<close>: the results section when \<open>result\<close> is truthy, otherwise the
  falsy value itself, for which React shows no element.
\<close>

datatype 'n results_slot = NoSection "'n json" | ResultsSection "'n results_view"

text \<open>
  \<open>error_section\<close> is the text shown after ``Error: '', \<open>None\<close> when
  \<open>{error && (...)}\<close> yields \<open>null\<close> or the empty string, which React does not show.
\<close>

record 'n view =
  upload_fileList :: "upload_file list"
  upload_button :: "icon option"
  analyze_disabled :: bool
  analyze_loading :: bool
  analyze_label :: string
  error_section :: "string option"
  results :: "'n results_slot"

text \<open>Property access on what may be \<open>undefined\<close>.\<close>

fun read_prop :: "'n json option \<Rightarrow> string \<Rightarrow> 'n json option completion" where
  "read_prop None key = Throw"
| "read_prop (Some v) key = get_prop v key"

definition uploadButton :: "'n app_state \<Rightarrow> icon" where
  "uploadButton s = (if uploading s then LoadingOutlined else UploadOutlined)"

definition render_nutrition ::
  "'n engine \<Rightarrow> 'n json option \<Rightarrow> 'n nutrition_view completion"
where
  "render_nutrition E info =
     (case read_prop info ''error'' of
        Throw \<Rightarrow> Throw
      | Return e \<Rightarrow>
          if truthy_prop E e then Return (NutritionError e)
          else
            (case (read_prop info ''name'', read_prop info ''calories'', read_prop info ''protein'',
                   read_prop info ''carbs'', read_prop info ''fats'') of
               (Return n, Return c, Return p, Return cb, Return f) \<Rightarrow>
                 Return (NutritionInformation n
                   [(''Calories'', c, ''kcal''), (''Protein'', p, ''g''),
                    (''Carbs'', cb, ''g''), (''Fats'', f, ''g'')])
             | _ \<Rightarrow> Throw))"

definition render_results :: "'n engine \<Rightarrow> 'n app_state \<Rightarrow> 'n results_slot completion" where
  "render_results E s =
     (if \<not> truthy E (result s) then Return (NoSection (result s))
      else
        (case (get_prop (result s) ''detected_food'', get_prop (result s) ''main_ingredient'',
               get_prop (result s) ''nutrition_info'',
               get_prop (result s) ''healthier_alternative'') of
           (Return foods, Return main, Return info, Return alternative) \<Rightarrow>
             (case render_nutrition E info of
                Throw \<Rightarrow> Throw
              | Return nv \<Rightarrow>
                  Return (ResultsSection
                    \<lparr>detected_foods = foods, main_ingredient_text = main, nutrition = nv,
                     alternative_text = alternative,
                     food_image =
                       (case imageUrl s of
                          None \<Rightarrow> None
                        | Some u \<Rightarrow> if u = [] then None else Some u)\<rparr>))
         | _ \<Rightarrow> Throw))"

definition render :: "'n engine \<Rightarrow> 'n app_state \<Rightarrow> 'n view completion" where
  "render E s =
     (case render_results E s of
        Throw \<Rightarrow> Throw
      | Return slot \<Rightarrow>
          Return
            \<lparr>upload_fileList = fileList s,
             upload_button = (if length (fileList s) \<ge> 1 then None else Some (uploadButton s)),
             analyze_disabled = (length (fileList s) = 0),
             analyze_loading = uploading s,
             analyze_label = (if uploading s then ''Analyzing...'' else ''Analyze Food''),
             error_section =
               (case error s of None \<Rightarrow> None | Some msg \<Rightarrow> if msg = [] then None else Some msg),
             results = slot\<rparr>)"

subsection \<open>The interfaces \<open>NutritionInfo\<close> and \<open>AnalysisResult\<close> (lines 20-34)\<close>

text \<open>
  The two interfaces as records, and as decoders that tell which JSON values have
  their shape. The program runs no such check; the decoders say what a valid body is.
\<close>

record 'n NutritionInfo =
  info_name :: string
  calories :: 'n
  protein :: 'n
  carbs :: 'n
  fats :: 'n
  info_error :: "string option"

record 'n AnalysisResult =
  detected_food :: "string list"
  main_ingredient :: string
  nutrition_info :: "'n NutritionInfo"
  healthier_alternative :: string

fun as_string :: "'n json option \<Rightarrow> string option" where
  "as_string (Some (JStr s)) = Some s"
| "as_string v = None"

fun as_number :: "'n json option \<Rightarrow> 'n option" where
  "as_number (Some (JNum n)) = Some n"
| "as_number v = None"

fun as_strings :: "'n json list \<Rightarrow> string list option" where
  "as_strings [] = Some []"
| "as_strings (x # xs) =
     (case (as_string (Some x), as_strings xs) of
        (Some s, Some ss) \<Rightarrow> Some (s # ss)
      | _ \<Rightarrow> None)"

fun as_string_array :: "'n json option \<Rightarrow> string list option" where
  "as_string_array (Some (JArr xs)) = as_strings xs"
| "as_string_array v = None"

fun as_optional_string :: "'n json option \<Rightarrow> string option option" where
  "as_optional_string None = Some None"
| "as_optional_string (Some (JStr s)) = Some (Some s)"
| "as_optional_string v = None"

fun as_NutritionInfo :: "'n json option \<Rightarrow> 'n NutritionInfo option" where
  "as_NutritionInfo (Some (JObj kvs)) =
     (case (as_string (map_of kvs ''name''), as_number (map_of kvs ''calories''),
            as_number (map_of kvs ''protein''), as_number (map_of kvs ''carbs''),
            as_number (map_of kvs ''fats''), as_optional_string (map_of kvs ''error'')) of
        (Some n, Some c, Some p, Some cb, Some f, Some e) \<Rightarrow>
          Some \<lparr>info_name = n, calories = c, protein = p, carbs = cb, fats = f,
                info_error = e\<rparr>
      | _ \<Rightarrow> None)"
| "as_NutritionInfo v = None"

fun as_AnalysisResult :: "'n json \<Rightarrow> 'n AnalysisResult option" where
  "as_AnalysisResult (JObj kvs) =
     (case (as_string_array (map_of kvs ''detected_food''),
            as_string (map_of kvs ''main_ingredient''),
            as_NutritionInfo (map_of kvs ''nutrition_info''),
            as_string (map_of kvs ''healthier_alternative'')) of
        (Some foods, Some main, Some info, Some alternative) \<Rightarrow>
          Some \<lparr>detected_food = foods, main_ingredient = main, nutrition_info = info,
                healthier_alternative = alternative\<rparr>
      | _ \<Rightarrow> None)"
| "as_AnalysisResult v = None"

subsection \<open>The running client\<close>

text \<open>
  The component together with the asynchronous work it has started and that has not
  finished: FileReaders still reading, requests still in flight. State updates made
  between two \<open>await\<close>s are committed together.

  The button that calls \<open>handleUpload\<close> is rendered with \<open>disabled\<close> and \<open>loading\<close>
  (lines 151-152), and antd's Button passes on no click while either holds; an \<open>App\<close>
  whose rendering throws shows no button at all. Picking and removing a file are
  allowed at any time.
\<close>

definition analyze_clickable :: "'n engine \<Rightarrow> 'n app_state \<Rightarrow> bool" where
  "analyze_clickable E s =
     (case render E s of
        Throw \<Rightarrow> False
      | Return v \<Rightarrow> \<not> analyze_disabled v \<and> \<not> analyze_loading v)"

record 'n client =
  app :: "'n app_state"
  reading :: nat
  in_flight :: nat

definition initial_client :: "'n client" where
  "initial_client = \<lparr>app = initial_state, reading = 0, in_flight = 0\<rparr>"

inductive reachable :: "'n engine \<Rightarrow> 'n client \<Rightarrow> bool" for E :: "'n engine" where
  start: "reachable E initial_client"
| select:
    "reachable E c \<Longrightarrow> beforeUpload blobUrl file (app c) = (r, s, effects) \<Longrightarrow>
     reachable E (c\<lparr>app := s, reading := reading c + length (filter is_read effects)\<rparr>)"
| loaded:
    "reachable E c \<Longrightarrow> 0 < reading c \<Longrightarrow>
     reachable E (c\<lparr>app := reader_onload dataUrl (app c), reading := reading c - 1\<rparr>)"
| remove:
    "reachable E c \<Longrightarrow> reachable E (c\<lparr>app := onRemove (app c)\<rparr>)"
| submit:
    "reachable E c \<Longrightarrow> analyze_clickable E (app c) \<Longrightarrow>
     handleUpload_pre (app c) = (s, effects, awaiting) \<Longrightarrow>
     reachable E (c\<lparr>app := s, in_flight := in_flight c + length (filter is_fetch effects)\<rparr>)"
| settle:
    "reachable E c \<Longrightarrow> 0 < in_flight c \<Longrightarrow>
     reachable E (c\<lparr>app := handleUpload_post E settled (app c), in_flight := in_flight c - 1\<rparr>)"

text \<open>
  The steps of the client other than the settling of a request: a file is offered, a
  FileReader delivers, the file is removed, the button is clicked. They are the rules
  \<open>select\<close>, \<open>loaded\<close>, \<open>remove\<close> and \<open>submit\<close> of \<open>reachable\<close>.
\<close>

inductive quiet_step :: "'n engine \<Rightarrow> 'n client \<Rightarrow> 'n client \<Rightarrow> bool"
  for E :: "'n engine"
where
  picks:
    "beforeUpload blobUrl file (app c) = (r, s, effects) \<Longrightarrow>
     quiet_step E c (c\<lparr>app := s, reading := reading c + length (filter is_read effects)\<rparr>)"
| loads:
    "0 < reading c \<Longrightarrow>
     quiet_step E c (c\<lparr>app := reader_onload dataUrl (app c), reading := reading c - 1\<rparr>)"
| removes:
    "quiet_step E c (c\<lparr>app := onRemove (app c)\<rparr>)"
| submits:
    "analyze_clickable E (app c) \<Longrightarrow> handleUpload_pre (app c) = (s, effects, awaiting) \<Longrightarrow>
     quiet_step E c (c\<lparr>app := s, in_flight := in_flight c + length (filter is_fetch effects)\<rparr>)"

subsection \<open>The analysis endpoint\<close>

text \<open>
  Modelled from the spec: the analysis endpoint, whose code (the Python backend of the
  README) is not among the sources. Sections 4.2 and 6 of the specification fix what it
  answers on failure: a status outside 200-299 with a JSON body whose \<open>message\<close> or
  \<open>error\<close> is a string, any other body being an opaque failure. \<open>keeps_contract\<close>
  says that of a settled request, and that the errors with which \<open>fetch\<close> and
  \<open>response.json()\<close> reject carry a message that is not empty.
\<close>

fun text_or_absent :: "'n json option \<Rightarrow> bool" where
  "text_or_absent None = True"
| "text_or_absent (Some (JStr s)) = True"
| "text_or_absent v = False"

fun failure_body :: "'n json \<Rightarrow> bool" where
  "failure_body (JObj kvs) =
     (text_or_absent (map_of kvs ''message'') \<and> text_or_absent (map_of kvs ''error''))"
| "failure_body d = True"

definition keeps_contract :: "'n fetch_result \<Rightarrow> bool" where
  "keeps_contract settled =
     (case settled of
        FetchRejects msg \<Rightarrow> msg \<noteq> []
      | FetchResolves r \<Rightarrow>
          (case response_json r of
             JsonRejects msg \<Rightarrow> msg \<noteq> []
           | JsonResolves d \<Rightarrow> response_ok r \<or> failure_body d))"

text \<open>The clients reached when every request settles within the contract.\<close>

inductive contract_reachable :: "'n engine \<Rightarrow> 'n client \<Rightarrow> bool"
  for E :: "'n engine"
where
  quiet_start: "contract_reachable E initial_client"
| quiet_move: "contract_reachable E c \<Longrightarrow> quiet_step E c c' \<Longrightarrow> contract_reachable E c'"
| kept_settle:
    "contract_reachable E c \<Longrightarrow> 0 < in_flight c \<Longrightarrow> keeps_contract settled \<Longrightarrow>
     contract_reachable E
       (c\<lparr>app := handleUpload_post E settled (app c), in_flight := in_flight c - 1\<rparr>)"

subsection \<open>Concrete inputs\<close>

text \<open>An engine whose numbers are the natural numbers, with V8's TypeError text.\<close>

definition nat_engine :: "nat engine" where
  "nat_engine =
     \<lparr>number_is_zero = (\<lambda>n. n = 0), number_to_string = string_of_nat,
      cannot_convert_message = ''Cannot convert object to primitive value''\<rparr>"

definition small_png :: rc_file where
  "small_png =
     \<lparr>rc_uid = ''rc-upload-1'', rc_name = ''salad.png'', rc_type = ''image/png'',
      rc_bytes = [137, 80, 78, 71]\<rparr>"

definition text_file :: rc_file where
  "text_file =
     \<lparr>rc_uid = ''rc-upload-2'', rc_name = ''notes.txt'', rc_type = ''text/plain'',
      rc_bytes = [104, 105]\<rparr>"

text \<open>A JPEG of exactly 4 MiB.\<close>

definition large_jpeg :: rc_file where
  "large_jpeg =
     \<lparr>rc_uid = ''rc-upload-3'', rc_name = ''feast.jpg'', rc_type = ''image/jpeg'',
      rc_bytes = replicate 4194304 0\<rparr>"

definition salad_entry :: upload_file where
  "salad_entry =
     \<lparr>uid = ''rc-upload-1'', name = ''salad.png'', status = ''done'',
      url = ''blob:1'', originFileObj = Some small_png\<rparr>"

text \<open>A list entry that has lost its file object.\<close>

definition detached_entry :: upload_file where
  "detached_entry =
     \<lparr>uid = ''rc-upload-9'', name = ''ghost.png'', status = ''done'',
      url = ''blob:9'', originFileObj = None\<rparr>"

text \<open>The state after \<open>salad.png\<close> has been picked in the initial state.\<close>

definition salad_selected :: "nat app_state" where
  "salad_selected = fst (snd (beforeUpload ''blob:1'' small_png initial_state))"

text \<open>A state with an earlier selection, an earlier result and an earlier error.\<close>

definition used_state :: "nat app_state" where
  "used_state =
     \<lparr>fileList = [detached_entry], uploading = False, imageUrl = Some ''data:old'',
      result = JObj [(''main_ingredient'', JStr ''rice'')], error = Some ''Error 500''\<rparr>"

text \<open>Responses of the backend: failures first.\<close>

definition no_food_response :: "nat response" where
  "no_food_response =
     \<lparr>response_status = 404,
      response_json = JsonResolves (JObj [(''message'', JStr ''no food detected'')])\<rparr>"

definition bad_gateway_response :: "nat response" where
  "bad_gateway_response =
     \<lparr>response_status = 502, response_json = JsonRejects ''Unexpected token <''\<rparr>"

text \<open>\<open>{"message": "", "error": "quota exceeded"}\<close>, \<open>null\<close> and \<open>{}\<close>.\<close>

definition quota_response :: "nat response" where
  "quota_response =
     \<lparr>response_status = 429,
      response_json =
        JsonResolves (JObj [(''message'', JStr []), (''error'', JStr ''quota exceeded'')])\<rparr>"

definition null_body_response :: "nat response" where
  "null_body_response = \<lparr>response_status = 500, response_json = JsonResolves JNull\<rparr>"

definition empty_object_response :: "nat response" where
  "empty_object_response = \<lparr>response_status = 500, response_json = JsonResolves (JObj [])\<rparr>"

text \<open>\<open>{"message": {"toString": 1}}\<close> with status 500.\<close>

definition unprintable_message_response :: "nat response" where
  "unprintable_message_response =
     \<lparr>response_status = 500,
      response_json = JsonResolves (JObj [(''message'', JObj [(''toString'', JNum 1)])])\<rparr>"

text \<open>\<open>{"message": []}\<close> with status 500.\<close>

definition empty_array_message_response :: "nat response" where
  "empty_array_message_response =
     \<lparr>response_status = 500, response_json = JsonResolves (JObj [(''message'', JArr [])])\<rparr>"

text \<open>Analyses: one with numbers, one with an error text, one whose error text is empty.\<close>

definition rice_body :: "nat json" where
  "rice_body =
     JObj [(''detected_food'', JArr [JStr ''rice'']),
           (''main_ingredient'', JStr ''rice''),
           (''nutrition_info'',
            JObj [(''name'', JStr ''rice''), (''calories'', JNum 130), (''protein'', JNum 3),
                  (''carbs'', JNum 28), (''fats'', JNum 0)]),
           (''healthier_alternative'', JStr ''brown rice'')]"

definition rice_response :: "nat response" where
  "rice_response = \<lparr>response_status = 200, response_json = JsonResolves rice_body\<rparr>"

definition unknown_food_body :: "nat json" where
  "unknown_food_body =
     JObj [(''detected_food'', JArr []),
           (''main_ingredient'', JStr ''unknown''),
           (''nutrition_info'',
            JObj [(''name'', JStr ''unknown''), (''calories'', JNum 0), (''protein'', JNum 0),
                  (''carbs'', JNum 0), (''fats'', JNum 0),
                  (''error'', JStr ''Nutrition data not found'')]),
           (''healthier_alternative'', JStr ''none'')]"

definition blank_error_body :: "nat json" where
  "blank_error_body =
     JObj [(''detected_food'', JArr [JStr ''rice'']),
           (''main_ingredient'', JStr ''rice''),
           (''nutrition_info'',
            JObj [(''name'', JStr ''rice''), (''calories'', JNum 130), (''protein'', JNum 3),
                  (''carbs'', JNum 28), (''fats'', JNum 0), (''error'', JStr [])]),
           (''healthier_alternative'', JStr ''brown rice'')]"

definition blank_error_response :: "nat response" where
  "blank_error_response =
     \<lparr>response_status = 200, response_json = JsonResolves blank_error_body\<rparr>"

text \<open>
  Two clients after \<open>salad.png\<close> was picked and submitted and the request failed: with
  the error text ``no food detected'', and with the empty error text.
\<close>

definition failed_client :: "nat client" where
  "failed_client =
     \<lparr>app = \<lparr>fileList = [salad_entry], uploading = False, imageUrl = None, result = JNull,
             error = Some ''no food detected''\<rparr>,
      reading = 1, in_flight = 0\<rparr>"

definition silent_error_client :: "nat client" where
  "silent_error_client =
     \<lparr>app = \<lparr>fileList = [salad_entry], uploading = False, imageUrl = None, result = JNull,
             error = Some []\<rparr>,
      reading = 1, in_flight = 0\<rparr>"

text \<open>
  A second file, and two clients: after \<open>salad.png\<close> was analysed with success, and
  after \<open>soup.jpg\<close> was then picked, previewed, removed, picked again and submitted.
\<close>

definition soup_jpeg :: rc_file where
  "soup_jpeg =
     \<lparr>rc_uid = ''rc-upload-4'', rc_name = ''soup.jpg'', rc_type = ''image/jpeg'',
      rc_bytes = [255, 216, 255]\<rparr>"

definition soup_entry :: upload_file where
  "soup_entry =
     \<lparr>uid = ''rc-upload-4'', name = ''soup.jpg'', status = ''done'',
      url = ''blob:4'', originFileObj = Some soup_jpeg\<rparr>"

definition analysed_client :: "nat client" where
  "analysed_client =
     \<lparr>app = \<lparr>fileList = [salad_entry], uploading = False, imageUrl = None,
             result = rice_body, error = None\<rparr>,
      reading = 1, in_flight = 0\<rparr>"

definition resubmitted_client :: "nat client" where
  "resubmitted_client =
     \<lparr>app = \<lparr>fileList = [soup_entry], uploading = True, imageUrl = None,
             result = rice_body, error = None\<rparr>,
      reading = 2, in_flight = 1\<rparr>"

section \<open>Properties\<close>

subsection \<open>Auxiliary facts\<close>

lemma string_of_MAX_FILE_SIZE_MB: "string_of_nat MAX_FILE_SIZE_MB = ''4''"
  unfolding MAX_FILE_SIZE_MB_def by code_simp

lemma string_of_status_500: "string_of_nat 500 = ''500''"
  by code_simp

lemma string_of_status_502: "string_of_nat 502 = ''502''"
  by code_simp

lemma isUnderSizeLimit_iff: "isUnderSizeLimit file \<longleftrightarrow> rc_size file < 4 * 1024 * 1024"
  by (simp add: isUnderSizeLimit_def MAX_FILE_SIZE_MB_def field_simps)

lemma beforeUpload_accepted:
  "isJpgOrPng file \<Longrightarrow> isUnderSizeLimit file \<Longrightarrow>
   beforeUpload blobUrl file s =
     (LIST_IGNORE,
      s\<lparr>fileList := [\<lparr>uid = rc_uid file, name = rc_name file, status = ''done'',
                       url = blobUrl, originFileObj = Some file\<rparr>],
        error := None\<rparr>,
      [ReadAsDataURL file])"
  by (simp add: beforeUpload_def)

lemma small_png_admissible: "isJpgOrPng small_png \<and> isUnderSizeLimit small_png"
  by (simp add: small_png_def isJpgOrPng_def isUnderSizeLimit_iff rc_size_def)

lemma salad_selected_eq:
  "salad_selected =
     \<lparr>fileList = [salad_entry], uploading = False, imageUrl = None, result = JNull,
      error = None\<rparr>"
  unfolding salad_selected_def
  by (simp add: beforeUpload_accepted small_png_admissible initial_state_def salad_entry_def)
    (simp add: small_png_def)

lemma handleUpload_pre_blob:
  "fileList s = file # rest \<Longrightarrow> originFileObj file = Some blob \<Longrightarrow>
   handleUpload_pre s =
     (s\<lparr>uploading := True, error := None\<rparr>,
      [Fetch ''/api/analyze'' ''POST'' [(''image'', FileValue blob)]], True)"
  by (simp add: handleUpload_pre_def)

lemma handleUpload_effects_blob:
  "fileList s = file # rest \<Longrightarrow> originFileObj file = Some blob \<Longrightarrow>
   snd (handleUpload E settled s) =
     [Fetch ''/api/analyze'' ''POST'' [(''image'', FileValue blob)]]"
  by (simp add: handleUpload_def handleUpload_pre_blob)

lemma uploading_handleUpload_post: "uploading (handleUpload_post E settled s) = False"
  by (simp add: handleUpload_post_def finally_block_def
      split: fetch_result.split completion.split json_result.split)

text \<open>The continuation takes one of two shapes: the \<open>catch\<close> path or the success path.\<close>

lemma handleUpload_post_cases:
  "(\<exists>msg. handleUpload_post E settled s =
           s\<lparr>error := Some msg, result := JNull, uploading := False\<rparr>)
   \<or> (\<exists>data. handleUpload_post E settled s = s\<lparr>result := data, uploading := False\<rparr>)"
  by (auto simp add: handleUpload_post_def catch_block_def finally_block_def
      split: fetch_result.split completion.split json_result.split)

lemma handleUpload_post_failed:
  "\<not> response_ok r \<Longrightarrow>
   handleUpload_post E (FetchResolves r) s =
     s\<lparr>error := Some (case to_string E (errorMessage E r) of
                       Throw \<Rightarrow> cannot_convert_message E | Return msg \<Rightarrow> msg),
       result := JNull, uploading := False\<rparr>"
  by (simp add: handleUpload_post_def catch_block_def finally_block_def split: completion.split)

lemma errorMessage_object:
  "response_json r = JsonResolves (JObj kvs) \<Longrightarrow>
   errorMessage E r =
     (case map_of kvs ''message'' of
        Some v \<Rightarrow> if truthy E v then v else
          (case map_of kvs ''error'' of
             Some w \<Rightarrow> if truthy E w then w else status_text r
           | None \<Rightarrow> status_text r)
      | None \<Rightarrow>
          (case map_of kvs ''error'' of
             Some w \<Rightarrow> if truthy E w then w else status_text r
           | None \<Rightarrow> status_text r))"
  by (simp add: errorMessage_def split: option.split)

lemma errorMessage_not_object:
  "response_json r = JsonResolves d \<Longrightarrow> \<forall>kvs. d \<noteq> JObj kvs \<Longrightarrow>
   errorMessage E r = status_text r"
  by (cases d) (simp_all add: errorMessage_def)

lemma to_string_status_text:
  "to_string E (status_text r) = Return (''Error '' @ string_of_nat (response_status r))"
  by (simp add: status_text_def)

lemma analyze_clickable_iff: "analyze_clickable E s \<Longrightarrow> fileList s \<noteq> [] \<and> \<not> uploading s"
  by (auto simp add: analyze_clickable_def render_def split: completion.splits)

text \<open>
  While a request is in flight the flag is set and no error is stored; there is never
  more than one request in flight; an error is only ever stored together with the null
  result.
\<close>

lemma client_invariant:
  "reachable E c \<Longrightarrow>
   (0 < in_flight c \<longrightarrow> uploading (app c) \<and> error (app c) = None)
   \<and> (uploading (app c) \<longrightarrow> in_flight c = 1)
   \<and> (error (app c) \<noteq> None \<longrightarrow> result (app c) = JNull)"
proof (induction rule: reachable.induct)
  case start
  then show ?case by (simp add: initial_client_def initial_state_def)
next
  case (select c blobUrl f r s effects)
  then show ?case
    by (auto simp add: beforeUpload_def split: if_splits)
next
  case (loaded c dataUrl)
  then show ?case by (simp add: reader_onload_def)
next
  case (remove c)
  then show ?case by (simp add: onRemove_def)
next
  case (submit c s effects awaiting)
  from submit.hyps(2) have idle: "fileList (app c) \<noteq> [] \<and> \<not> uploading (app c)"
    by (rule analyze_clickable_iff)
  with submit.IH have "in_flight c = 0"
    by auto
  with submit.hyps(3) submit.IH idle show ?case
    by (auto simp add: handleUpload_pre_def split: list.splits option.splits)
next
  case (settle c settled)
  then have before: "in_flight c = 1" "error (app c) = None"
    by auto
  from handleUpload_post_cases [of E settled "app c"] show ?case
  proof (elim disjE exE)
    fix msg
    assume "handleUpload_post E settled (app c) =
      (app c)\<lparr>error := Some msg, result := JNull, uploading := False\<rparr>"
    with before show ?thesis by simp
  next
    fix data
    assume "handleUpload_post E settled (app c) = (app c)\<lparr>result := data, uploading := False\<rparr>"
    with before show ?thesis by simp
  qed
qed

lemma render_without_result:
  "result s = JNull \<Longrightarrow>
   \<exists>v. render E s = Return v \<and> results v = NoSection JNull
     \<and> error_section v =
         (case error s of None \<Rightarrow> None | Some msg \<Rightarrow> if msg = [] then None else Some msg)"
  by (simp add: render_def render_results_def)

lemma render_error_section:
  "render E s = Return v \<Longrightarrow>
   error_section v =
     (case error s of None \<Rightarrow> None | Some msg \<Rightarrow> if msg = [] then None else Some msg)"
  by (auto simp add: render_def split: completion.splits)

text \<open>The results part of the rendering reads \<open>result\<close> and \<open>imageUrl\<close> only.\<close>

lemma render_results_frame:
  assumes "result s = result t" and "imageUrl s = imageUrl t"
  shows "render_results E s = render_results E t"
  unfolding render_results_def assms by (rule refl)

text \<open>What the decoders accept.\<close>

lemma as_string_Some: "as_string v = Some s \<Longrightarrow> v = Some (JStr s)"
  by (erule as_string.elims) simp_all

lemma as_number_Some: "as_number v = Some n \<Longrightarrow> v = Some (JNum n)"
  by (erule as_number.elims) simp_all

lemma as_strings_Some: "as_strings xs = Some ss \<Longrightarrow> xs = map JStr ss"
proof (induction xs arbitrary: ss)
  case Nil
  then show ?case by simp
next
  case (Cons x xs)
  then show ?case
    by (auto split: option.splits dest: as_string_Some)
qed

lemma as_string_array_Some: "as_string_array v = Some ss \<Longrightarrow> v = Some (JArr (map JStr ss))"
  by (erule as_string_array.elims) (simp_all add: as_strings_Some)

lemma as_optional_string_Some: "as_optional_string v = Some e \<Longrightarrow> v = map_option JStr e"
  by (erule as_optional_string.elims) auto

lemma as_NutritionInfo_Some:
  "as_NutritionInfo v = Some i \<Longrightarrow>
   \<exists>kvs. v = Some (JObj kvs)
     \<and> map_of kvs ''name'' = Some (JStr (info_name i))
     \<and> map_of kvs ''calories'' = Some (JNum (calories i))
     \<and> map_of kvs ''protein'' = Some (JNum (protein i))
     \<and> map_of kvs ''carbs'' = Some (JNum (carbs i))
     \<and> map_of kvs ''fats'' = Some (JNum (fats i))
     \<and> map_of kvs ''error'' = map_option JStr (info_error i)"
  by (erule as_NutritionInfo.elims)
    (auto split: option.splits
      dest!: as_string_Some as_number_Some as_optional_string_Some)

lemma as_AnalysisResult_Some:
  "as_AnalysisResult d = Some a \<Longrightarrow>
   \<exists>kvs. d = JObj kvs
     \<and> map_of kvs ''detected_food'' = Some (JArr (map JStr (detected_food a)))
     \<and> map_of kvs ''main_ingredient'' = Some (JStr (main_ingredient a))
     \<and> as_NutritionInfo (map_of kvs ''nutrition_info'') = Some (nutrition_info a)
     \<and> map_of kvs ''healthier_alternative'' = Some (JStr (healthier_alternative a))"
  by (erule as_AnalysisResult.elims)
    (auto split: option.splits dest!: as_string_Some as_string_array_Some)

lemma render_nutrition_valid:
  assumes "as_NutritionInfo v = Some i"
  shows "render_nutrition E v =
    Return (case info_error i of
              Some e \<Rightarrow>
                if e \<noteq> [] then NutritionError (Some (JStr e))
                else NutritionInformation (Some (JStr (info_name i)))
                  [(''Calories'', Some (JNum (calories i)), ''kcal''),
                   (''Protein'', Some (JNum (protein i)), ''g''),
                   (''Carbs'', Some (JNum (carbs i)), ''g''),
                   (''Fats'', Some (JNum (fats i)), ''g'')]
            | None \<Rightarrow>
                NutritionInformation (Some (JStr (info_name i)))
                  [(''Calories'', Some (JNum (calories i)), ''kcal''),
                   (''Protein'', Some (JNum (protein i)), ''g''),
                   (''Carbs'', Some (JNum (carbs i)), ''g''),
                   (''Fats'', Some (JNum (fats i)), ''g'')])"
proof -
  from assms obtain kvs where "v = Some (JObj kvs)"
    and "map_of kvs ''name'' = Some (JStr (info_name i))"
    and "map_of kvs ''calories'' = Some (JNum (calories i))"
    and "map_of kvs ''protein'' = Some (JNum (protein i))"
    and "map_of kvs ''carbs'' = Some (JNum (carbs i))"
    and "map_of kvs ''fats'' = Some (JNum (fats i))"
    and "map_of kvs ''error'' = map_option JStr (info_error i)"
    using as_NutritionInfo_Some by blast
  then show ?thesis
    by (cases "info_error i") (simp_all add: render_nutrition_def)
qed

text \<open>The concrete clients are reached by picking, submitting and a failed response.\<close>

lemma salad_sent_reachable:
  "reachable nat_engine
     \<lparr>app = salad_selected\<lparr>uploading := True, error := None\<rparr>, reading = 1, in_flight = 1\<rparr>"
proof -
  have "reachable nat_engine (initial_client :: nat client)"
    by (rule reachable.start)
  from reachable.select [OF this, of "''blob:1''" small_png LIST_IGNORE salad_selected
      "[ReadAsDataURL small_png]"]
  have picked: "reachable nat_engine \<lparr>app = salad_selected, reading = 1, in_flight = 0\<rparr>"
    by (simp add: initial_client_def salad_selected_def beforeUpload_accepted
        small_png_admissible)
  have "analyze_clickable nat_engine salad_selected"
    by (simp add: analyze_clickable_def render_def render_results_def salad_selected_eq)
  from reachable.submit [OF picked, of "salad_selected\<lparr>uploading := True, error := None\<rparr>"
      "[Fetch ''/api/analyze'' ''POST'' [(''image'', FileValue small_png)]]" True] this
  show ?thesis
    by (simp add: handleUpload_pre_def salad_selected_eq salad_entry_def)
qed

lemma silent_error_client_reachable: "reachable nat_engine silent_error_client"
  using reachable.settle [OF salad_sent_reachable,
      of "FetchResolves empty_array_message_response"]
  by (simp add: silent_error_client_def salad_selected_eq handleUpload_post_def
      empty_array_message_response_def response_ok_def errorMessage_def nat_engine_def
      catch_block_def finally_block_def)

lemma failed_client_reachable: "reachable nat_engine failed_client"
  using reachable.settle [OF salad_sent_reachable, of "FetchResolves no_food_response"]
  by (simp add: failed_client_def salad_selected_eq handleUpload_post_def
      no_food_response_def response_ok_def errorMessage_def nat_engine_def
      catch_block_def finally_block_def)

text \<open>Quiet steps stay inside the reachable clients, and \<open>reachable\<close> is their closure
  together with settling.\<close>

lemma reachable_quiet_step: "reachable E c \<Longrightarrow> quiet_step E c c' \<Longrightarrow> reachable E c'"
  by (erule quiet_step.cases) (blast intro: reachable.intros)+

lemma reachable_quiet_steps:
  "rtranclp (quiet_step E) c c' \<Longrightarrow> reachable E c \<Longrightarrow> reachable E c'"
  by (induction rule: rtranclp_induct) (blast intro: reachable_quiet_step)+

lemma reachable_steps:
  "reachable E c' \<longleftrightarrow>
     c' = initial_client
     \<or> (\<exists>c. reachable E c \<and> quiet_step E c c')
     \<or> (\<exists>c settled. reachable E c \<and> 0 < in_flight c
           \<and> c' = c\<lparr>app := handleUpload_post E settled (app c), in_flight := in_flight c - 1\<rparr>)"
proof
  assume "reachable E c'"
  then show "c' = initial_client
     \<or> (\<exists>c. reachable E c \<and> quiet_step E c c')
     \<or> (\<exists>c settled. reachable E c \<and> 0 < in_flight c
           \<and> c' = c\<lparr>app := handleUpload_post E settled (app c), in_flight := in_flight c - 1\<rparr>)"
    by (cases rule: reachable.cases) (blast intro: quiet_step.intros)+
next
  assume "c' = initial_client
     \<or> (\<exists>c. reachable E c \<and> quiet_step E c c')
     \<or> (\<exists>c settled. reachable E c \<and> 0 < in_flight c
           \<and> c' = c\<lparr>app := handleUpload_post E settled (app c), in_flight := in_flight c - 1\<rparr>)"
  then show "reachable E c'"
    by (blast intro: reachable.start reachable.settle reachable_quiet_step)
qed

lemma contract_reachable_reachable: "contract_reachable E c \<Longrightarrow> reachable E c"
  by (induction rule: contract_reachable.induct)
    (blast intro: reachable.start reachable.settle reachable_quiet_step)+

lemma quiet_step_result: "quiet_step E c c' \<Longrightarrow> result (app c') = result (app c)"
  by (erule quiet_step.cases)
    (auto simp add: beforeUpload_def reader_onload_def onRemove_def handleUpload_pre_def
      split: if_splits list.splits option.splits)

lemma quiet_steps_result:
  "rtranclp (quiet_step E) c c' \<Longrightarrow> result (app c') = result (app c)"
  by (induction rule: rtranclp_induct) (simp_all add: quiet_step_result)

lemma selection_at_most_one: "reachable E c \<Longrightarrow> length (fileList (app c)) \<le> 1"
proof (induction rule: reachable.induct)
  case start
  then show ?case by (simp add: initial_client_def initial_state_def)
next
  case (select c blobUrl f r s effects)
  then show ?case by (auto simp add: beforeUpload_def split: if_splits)
next
  case (loaded c dataUrl)
  then show ?case by (simp add: reader_onload_def)
next
  case (remove c)
  then show ?case by (simp add: onRemove_def)
next
  case (submit c s effects awaiting)
  then show ?case
    by (auto simp add: handleUpload_pre_def split: list.splits option.splits)
next
  case (settle c settled)
  with handleUpload_post_cases [of E settled "app c"] show ?case
    by auto
qed


text \<open>Within the contract the stored error is never the empty string.\<close>

lemma text_or_absent_cases:
  "text_or_absent v \<Longrightarrow> v = None \<or> (\<exists>t. v = Some (JStr t))"
  by (erule text_or_absent.elims) simp_all

lemma errorMessage_contract:
  assumes "response_json r = JsonResolves d" and "failure_body d"
  shows "\<exists>t. errorMessage E r = JStr t \<and> t \<noteq> []"
proof (cases "\<exists>kvs. d = JObj kvs")
  case True
  then obtain kvs where d: "d = JObj kvs" by blast
  with assms(2) have "text_or_absent (map_of kvs ''message'')"
    and "text_or_absent (map_of kvs ''error'')"
    by simp_all
  then have "map_of kvs ''message'' = None \<or> (\<exists>t. map_of kvs ''message'' = Some (JStr t))"
    and "map_of kvs ''error'' = None \<or> (\<exists>t. map_of kvs ''error'' = Some (JStr t))"
    by (simp_all add: text_or_absent_cases)
  with assms(1) d show ?thesis
    by (auto simp add: errorMessage_object status_text_def)
next
  case False
  with assms(1) show ?thesis
    by (simp add: errorMessage_not_object status_text_def)
qed

lemma contract_error_nonempty:
  assumes "keeps_contract settled" and "error s \<noteq> Some []"
  shows "error (handleUpload_post E settled s) \<noteq> Some []"
proof (cases settled)
  case (FetchRejects msg)
  with assms show ?thesis
    by (simp add: keeps_contract_def handleUpload_post_def catch_block_def finally_block_def)
next
  case (FetchResolves r)
  show ?thesis
  proof (cases "response_json r")
    case (JsonRejects msg)
    with FetchResolves assms show ?thesis
      by (simp add: keeps_contract_def handleUpload_post_def catch_block_def finally_block_def
          errorMessage_def status_text_def)
  next
    case (JsonResolves d)
    show ?thesis
    proof (cases "response_ok r")
      case True
      with FetchResolves JsonResolves assms show ?thesis
        by (simp add: handleUpload_post_def finally_block_def)
    next
      case False
      with FetchResolves JsonResolves assms have "failure_body d"
        by (simp add: keeps_contract_def)
      with JsonResolves obtain t where "errorMessage E r = JStr t" and "t \<noteq> []"
        using errorMessage_contract by blast
      with False FetchResolves show ?thesis
        by (simp add: handleUpload_post_failed)
    qed
  qed
qed

lemma quiet_step_error:
  "quiet_step E c c' \<Longrightarrow> error (app c') = None \<or> error (app c') = error (app c)"
  by (erule quiet_step.cases)
    (auto simp add: beforeUpload_def reader_onload_def onRemove_def handleUpload_pre_def
      split: if_splits list.splits option.splits)

lemma contract_error_invariant: "contract_reachable E c \<Longrightarrow> error (app c) \<noteq> Some []"
proof (induction rule: contract_reachable.induct)
  case quiet_start
  then show ?case by (simp add: initial_client_def initial_state_def)
next
  case (quiet_move c c')
  with quiet_step_error [of E c c'] show ?case by auto
next
  case (kept_settle c settled)
  then show ?case by (simp add: contract_error_nonempty)
qed

text \<open>The trace from the analysed client to the resubmitted one.\<close>

lemma analysed_client_reachable: "reachable nat_engine analysed_client"
  using reachable.settle [OF salad_sent_reachable, of "FetchResolves rice_response"]
  by (simp add: analysed_client_def salad_selected_eq handleUpload_post_def
      rice_response_def response_ok_def finally_block_def)

lemma soup_jpeg_admissible: "isJpgOrPng soup_jpeg \<and> isUnderSizeLimit soup_jpeg"
  by (simp add: soup_jpeg_def isJpgOrPng_def isUnderSizeLimit_iff rc_size_def)

lemma soup_picked:
  "beforeUpload ''blob:4'' soup_jpeg s =
     (LIST_IGNORE, s\<lparr>fileList := [soup_entry], error := None\<rparr>, [ReadAsDataURL soup_jpeg])"
  by (simp add: beforeUpload_accepted soup_jpeg_admissible soup_entry_def)
    (simp add: soup_jpeg_def)

lemma soup_trace:
  "rtranclp (quiet_step nat_engine)
     (analysed_client
        \<lparr>app := fst (snd (beforeUpload ''blob:4'' soup_jpeg (app analysed_client))),
         reading := reading analysed_client + 1\<rparr>)
     resubmitted_client"
proof -
  let ?c1 = "\<lparr>app = \<lparr>fileList = [soup_entry], uploading = False, imageUrl = None,
      result = rice_body, error = None\<rparr>, reading = 2, in_flight = 0 :: nat\<rparr>"
  let ?c2 = "\<lparr>app = \<lparr>fileList = [soup_entry], uploading = False,
      imageUrl = Some ''data:image/jpeg;base64,/9j/'',
      result = rice_body, error = None\<rparr>, reading = 1, in_flight = 0 :: nat\<rparr>"
  let ?c3 = "\<lparr>app = \<lparr>fileList = [], uploading = False, imageUrl = None,
      result = rice_body, error = None\<rparr>, reading = 1, in_flight = 0 :: nat\<rparr>"
  let ?c4 = "\<lparr>app = \<lparr>fileList = [soup_entry], uploading = False, imageUrl = None,
      result = rice_body, error = None\<rparr>, reading = 2, in_flight = 0 :: nat\<rparr>"
  have first: "analysed_client
        \<lparr>app := fst (snd (beforeUpload ''blob:4'' soup_jpeg (app analysed_client))),
         reading := reading analysed_client + 1\<rparr> = ?c1"
    by (simp add: soup_picked analysed_client_def)
  from quiet_step.loads [of ?c1 nat_engine "Some ''data:image/jpeg;base64,/9j/''"]
  have s12: "quiet_step nat_engine ?c1 ?c2"
    by (simp add: reader_onload_def)
  from quiet_step.removes [of nat_engine ?c2]
  have s23: "quiet_step nat_engine ?c2 ?c3"
    by (simp add: onRemove_def)
  from quiet_step.picks [of "''blob:4''" soup_jpeg ?c3 LIST_IGNORE
      "\<lparr>fileList = [soup_entry], uploading = False, imageUrl = None,
        result = rice_body, error = None\<rparr>" "[ReadAsDataURL soup_jpeg]" nat_engine]
  have s34: "quiet_step nat_engine ?c3 ?c4"
    by (simp add: soup_picked numeral_2_eq_2)
  have "analyze_clickable nat_engine (app ?c4)"
    by (simp add: analyze_clickable_def render_def render_results_def render_nutrition_def
        rice_body_def nat_engine_def)
  from quiet_step.submits [OF this, of
      "\<lparr>fileList = [soup_entry], uploading = True, imageUrl = None,
        result = rice_body, error = None\<rparr>"
      "[Fetch ''/api/analyze'' ''POST'' [(''image'', FileValue soup_jpeg)]]" True]
  have s45: "quiet_step nat_engine ?c4 resubmitted_client"
    by (simp add: handleUpload_pre_def soup_entry_def resubmitted_client_def)
  from s12 s23 s34 s45 have "rtranclp (quiet_step nat_engine) ?c1 resubmitted_client"
    by (meson rtranclp.rtrancl_into_rtrancl rtranclp.rtrancl_refl)
  with first show ?thesis by simp
qed

subsection \<open>Admission of a file\<close>

text \<open>
  C1. \<open>beforeUpload\<close> puts the offered file into the selection exactly when its MIME
  type is \<open>image/jpeg\<close> or \<open>image/png\<close> and its size is below 4 MiB (4194304 bytes).
  The type is tested first: a file of another type gets the type message whatever its
  size, a file of the right type and of 4 MiB or more gets the size message; in both
  cases the toast is the only effect and the state, hence the selection, is unchanged.
\<close>

theorem beforeUpload_admission:
  fixes s :: "'n app_state"
  shows
  "(beforeUpload blobUrl file s =
      (LIST_IGNORE,
       s\<lparr>fileList := [\<lparr>uid = rc_uid file, name = rc_name file, status = ''done'',
                        url = blobUrl, originFileObj = Some file\<rparr>],
         error := None\<rparr>,
       [ReadAsDataURL file])
    \<longleftrightarrow> (rc_type file = ''image/jpeg'' \<or> rc_type file = ''image/png'')
          \<and> rc_size file < 4 * 1024 * 1024)
   \<and> (rc_type file \<noteq> ''image/jpeg'' \<and> rc_type file \<noteq> ''image/png'' \<longrightarrow>
        beforeUpload blobUrl file s =
          (LIST_IGNORE, s, [MessageError ''You can only upload JPG/PNG file!'']))
   \<and> ((rc_type file = ''image/jpeg'' \<or> rc_type file = ''image/png'')
        \<and> 4 * 1024 * 1024 \<le> rc_size file \<longrightarrow>
        beforeUpload blobUrl file s =
          (LIST_IGNORE, s,
           [MessageError ''Image must be smaller than 4MB for serverless functions!'']))"
  by (auto simp add: beforeUpload_def isJpgOrPng_def isUnderSizeLimit_iff
      string_of_MAX_FILE_SIZE_MB)

theorem beforeUpload_admission_witness:
  "beforeUpload ''blob:1'' small_png (initial_state :: nat app_state) =
     (LIST_IGNORE,
      \<lparr>fileList = [\<lparr>uid = ''rc-upload-1'', name = ''salad.png'', status = ''done'',
                    url = ''blob:1'', originFileObj = Some small_png\<rparr>],
       uploading = False, imageUrl = None, result = JNull, error = None\<rparr>,
      [ReadAsDataURL small_png])
   \<and> beforeUpload ''blob:2'' text_file (initial_state :: nat app_state) =
       (LIST_IGNORE, initial_state, [MessageError ''You can only upload JPG/PNG file!''])
   \<and> beforeUpload ''blob:3'' large_jpeg (initial_state :: nat app_state) =
       (LIST_IGNORE, initial_state,
        [MessageError ''Image must be smaller than 4MB for serverless functions!''])"
  using beforeUpload_admission [of "''blob:1''" small_png "initial_state :: nat app_state"]
    beforeUpload_admission [of "''blob:2''" text_file "initial_state :: nat app_state"]
    beforeUpload_admission [of "''blob:3''" large_jpeg "initial_state :: nat app_state"]
  by (simp add: small_png_def text_file_def large_jpeg_def rc_size_def initial_state_def)

text \<open>
  C9. Accepting a valid file in any state, whatever selection, error or result it holds,
  makes the selection the one-element list of the new file and clears the error; in
  every reachable client the selection has at most one entry. The result stays as it
  was in the step itself and along every sequence of steps that follows it, be they
  further picks, previews, removals or clicks on the button: only the settling of a
  request writes it. The results are rendered from that same result all the while,
  beside whatever preview is current.
\<close>

theorem beforeUpload_replaces_selection:
  assumes "isJpgOrPng picked" and "isUnderSizeLimit picked"
  shows
  "fileList (fst (snd (beforeUpload blobUrl picked s))) =
     [\<lparr>uid = rc_uid picked, name = rc_name picked, status = ''done'',
       url = blobUrl, originFileObj = Some picked\<rparr>]
   \<and> length (fileList (fst (snd (beforeUpload blobUrl picked s)))) = 1
   \<and> error (fst (snd (beforeUpload blobUrl picked s))) = None
   \<and> result (fst (snd (beforeUpload blobUrl picked s))) = result s
   \<and> render_results E (fst (snd (beforeUpload blobUrl picked s))) = render_results E s
   \<and> result (reader_onload dataUrl (fst (snd (beforeUpload blobUrl picked s)))) = result s
   \<and> result (fst (handleUpload_pre (fst (snd (beforeUpload blobUrl picked s))))) = result s
   \<and> (app c = s
        \<and> rtranclp (quiet_step E)
            (c\<lparr>app := fst (snd (beforeUpload blobUrl picked s)), reading := reading c + 1\<rparr>) c'
        \<longrightarrow> result (app c') = result s
          \<and> render_results E (app c') = render_results E (s\<lparr>imageUrl := imageUrl (app c')\<rparr>))
   \<and> (reachable E c \<longrightarrow> length (fileList (app c)) \<le> 1)"
proof -
  let ?entry = "\<lparr>uid = rc_uid picked, name = rc_name picked, status = ''done'',
      url = blobUrl, originFileObj = Some picked\<rparr>"
  have after: "fst (snd (beforeUpload blobUrl picked s)) =
      s\<lparr>fileList := [?entry], error := None\<rparr>"
    using assms by (simp add: beforeUpload_accepted)
  have shown: "render_results E (s\<lparr>fileList := [?entry], error := None\<rparr>) = render_results E s"
    by (rule render_results_frame) simp_all
  have trace: "result (app c') = result s
      \<and> render_results E (app c') = render_results E (s\<lparr>imageUrl := imageUrl (app c')\<rparr>)"
    if "app c = s \<and> rtranclp (quiet_step E)
        (c\<lparr>app := s\<lparr>fileList := [?entry], error := None\<rparr>, reading := reading c + 1\<rparr>) c'"
  proof -
    from that quiet_steps_result
      [of E "c\<lparr>app := s\<lparr>fileList := [?entry], error := None\<rparr>, reading := reading c + 1\<rparr>" c']
    have kept: "result (app c') = result s"
      by simp
    then have "render_results E (app c') = render_results E (s\<lparr>imageUrl := imageUrl (app c')\<rparr>)"
      by (intro render_results_frame) simp_all
    with kept show ?thesis by simp
  qed
  from shown trace selection_at_most_one [of E c] show ?thesis
    unfolding after by (simp add: reader_onload_def handleUpload_pre_def)
qed

theorem beforeUpload_replaces_selection_witness:
  "isJpgOrPng soup_jpeg \<and> isUnderSizeLimit soup_jpeg
   \<and> reachable nat_engine analysed_client
   \<and> fileList (app analysed_client) = [salad_entry]
   \<and> result (app analysed_client) = rice_body
   \<and> fileList (fst (snd (beforeUpload ''blob:4'' soup_jpeg (app analysed_client)))) = [soup_entry]
   \<and> error (fst (snd (beforeUpload ''blob:4'' soup_jpeg (app analysed_client)))) = None
   \<and> result (fst (snd (beforeUpload ''blob:4'' soup_jpeg (app analysed_client)))) = rice_body
   \<and> rtranclp (quiet_step nat_engine)
       (analysed_client
          \<lparr>app := fst (snd (beforeUpload ''blob:4'' soup_jpeg (app analysed_client))),
           reading := reading analysed_client + 1\<rparr>)
       resubmitted_client
   \<and> result (app resubmitted_client) = rice_body
   \<and> length (fileList (app analysed_client)) \<le> 1"
proof -
  have valid: "isJpgOrPng soup_jpeg" "isUnderSizeLimit soup_jpeg"
    using soup_jpeg_admissible by simp_all
  have before: "fileList (app analysed_client) = [salad_entry]
      \<and> result (app analysed_client) = rice_body"
    by (simp add: analysed_client_def)
  have entry: "\<lparr>uid = rc_uid soup_jpeg, name = rc_name soup_jpeg, status = ''done'',
      url = ''blob:4'', originFileObj = Some soup_jpeg\<rparr> = soup_entry"
    by (simp add: soup_entry_def soup_jpeg_def)
  from beforeUpload_replaces_selection
      [OF valid, of "''blob:4''" "app analysed_client" nat_engine None analysed_client
          resubmitted_client]
    valid before entry soup_trace analysed_client_reachable
  show ?thesis by simp
qed

subsection \<open>Submission\<close>

text \<open>
  C2. Called with an empty selection, \<open>handleUpload\<close> shows the toast
  ``Please select an image first!'', leaves the state as it is and issues no request.
\<close>

theorem handleUpload_empty_selection:
  "fileList s = [] \<Longrightarrow>
   handleUpload E settled s = (s, [MessageError ''Please select an image first!''])
   \<and> filter is_fetch (snd (handleUpload E settled s)) = []"
  by (simp add: handleUpload_def handleUpload_pre_def)

theorem handleUpload_empty_selection_witness:
  "fileList (initial_state :: nat app_state) = []
   \<and> handleUpload nat_engine (FetchRejects ''Failed to fetch'') (initial_state :: nat app_state) =
       (initial_state, [MessageError ''Please select an image first!''])"
  using handleUpload_empty_selection
    [of "initial_state :: nat app_state" nat_engine "FetchRejects ''Failed to fetch''"]
  by (simp add: initial_state_def)

text \<open>
  C10. Called with a first list entry that has no file object, \<open>handleUpload\<close> shows
  the toast ``Invalid file object'' and returns: no request is issued and the state,
  with its \<open>uploading\<close>, \<open>result\<close> and \<open>error\<close>, is what it was.
\<close>

theorem handleUpload_invalid_file_object:
  "fileList s = file # rest \<Longrightarrow> originFileObj file = None \<Longrightarrow>
   handleUpload E settled s = (s, [MessageError ''Invalid file object''])
   \<and> filter is_fetch (snd (handleUpload E settled s)) = []
   \<and> uploading (fst (handleUpload E settled s)) = uploading s
   \<and> result (fst (handleUpload E settled s)) = result s
   \<and> error (fst (handleUpload E settled s)) = error s"
  by (simp add: handleUpload_def handleUpload_pre_def)

theorem handleUpload_invalid_file_object_witness:
  "fileList used_state = detached_entry # [] \<and> originFileObj detached_entry = None
   \<and> handleUpload nat_engine (FetchResolves rice_response) used_state =
       (used_state, [MessageError ''Invalid file object''])
   \<and> uploading (fst (handleUpload nat_engine (FetchResolves rice_response) used_state)) = False"
  using handleUpload_invalid_file_object
    [of used_state detached_entry "[]" nat_engine "FetchResolves rice_response"]
  by (simp add: used_state_def detached_entry_def)

text \<open>
  C3. With a file selected whose file object is there, \<open>handleUpload\<close> performs exactly
  one effect, a POST to \<open>/api/analyze\<close> whose body has the single field \<open>image\<close>
  holding that file object. After a file has been accepted by \<open>beforeUpload\<close>, this is
  the very file that was offered, whatever data URL the FileReader has delivered for
  the preview in the meantime.
\<close>

theorem handleUpload_posts_original_file:
  "(fileList s = file # rest \<and> originFileObj file = Some blob \<longrightarrow>
      snd (handleUpload E settled s) =
        [Fetch ''/api/analyze'' ''POST'' [(''image'', FileValue blob)]]
      \<and> length (filter is_fetch (snd (handleUpload E settled s))) = 1)
   \<and> (isJpgOrPng picked \<and> isUnderSizeLimit picked \<longrightarrow>
        snd (handleUpload E settled
               (reader_onload dataUrl (fst (snd (beforeUpload blobUrl picked s0))))) =
          [Fetch ''/api/analyze'' ''POST'' [(''image'', FileValue picked)]])"
proof (intro conjI impI)
  assume a: "fileList s = file # rest \<and> originFileObj file = Some blob"
  then show "snd (handleUpload E settled s) =
      [Fetch ''/api/analyze'' ''POST'' [(''image'', FileValue blob)]]"
    by (simp add: handleUpload_effects_blob)
  then show "length (filter is_fetch (snd (handleUpload E settled s))) = 1"
    by simp
next
  assume b: "isJpgOrPng picked \<and> isUnderSizeLimit picked"
  let ?entry = "\<lparr>uid = rc_uid picked, name = rc_name picked, status = ''done'',
                  url = blobUrl, originFileObj = Some picked\<rparr>"
  let ?s = "reader_onload dataUrl (fst (snd (beforeUpload blobUrl picked s0)))"
  have "fileList ?s = ?entry # []"
    using b by (simp add: beforeUpload_accepted reader_onload_def)
  moreover have "originFileObj ?entry = Some picked"
    by simp
  ultimately show "snd (handleUpload E settled ?s) =
      [Fetch ''/api/analyze'' ''POST'' [(''image'', FileValue picked)]]"
    by (rule handleUpload_effects_blob)
qed

theorem handleUpload_posts_original_file_witness:
  "snd (handleUpload nat_engine (FetchRejects ''Failed to fetch'')
          (reader_onload (Some ''data:image/png;base64,iVBORw=='')
             (fst (snd (beforeUpload ''blob:1'' small_png (initial_state :: nat app_state)))))) =
     [Fetch ''/api/analyze'' ''POST'' [(''image'', FileValue small_png)]]
   \<and> snd (handleUpload nat_engine (FetchRejects ''Failed to fetch'')
            ((initial_state :: nat app_state)\<lparr>fileList := [salad_entry]\<rparr>)) =
       [Fetch ''/api/analyze'' ''POST'' [(''image'', FileValue small_png)]]"
  using handleUpload_posts_original_file
    [of "(initial_state :: nat app_state)\<lparr>fileList := [salad_entry]\<rparr>" salad_entry "[]"
        small_png nat_engine "FetchRejects ''Failed to fetch''" small_png
        "Some ''data:image/png;base64,iVBORw==''" "''blob:1''" "initial_state :: nat app_state"]
  by (simp add: salad_entry_def small_png_admissible)

text \<open>
  C4. \<open>uploading\<close> is false in the initial state. The continuation of \<open>handleUpload\<close>
  leaves it false however the request settles: a rejected \<open>fetch\<close>, a response with a
  status outside 200-299, a response whose body does not parse, a success. An invocation
  that issues its request therefore ends with the flag false, and one that returns early
  does not touch it. In the running client the flag is false whenever no request is in
  flight.
\<close>

theorem uploading_always_reset:
  "uploading (initial_state :: 'n app_state) = False
   \<and> uploading (handleUpload_post E settled s) = False
   \<and> (fileList s = file # rest \<and> originFileObj file = Some blob \<longrightarrow>
        uploading (fst (handleUpload E settled s)) = False)
   \<and> (\<not> uploading s \<longrightarrow> \<not> uploading (fst (handleUpload E settled s)))
   \<and> (reachable E c \<and> in_flight c = 0 \<longrightarrow> \<not> uploading (app c))"
proof (intro conjI impI)
  show "uploading (initial_state :: 'n app_state) = False"
    by (simp add: initial_state_def)
  show "uploading (handleUpload_post E settled s) = False"
    by (rule uploading_handleUpload_post)
  show "uploading (fst (handleUpload E settled s)) = False"
    if "fileList s = file # rest \<and> originFileObj file = Some blob"
    using that
    by (simp add: handleUpload_def handleUpload_pre_blob uploading_handleUpload_post)
  show "\<not> uploading (fst (handleUpload E settled s))" if "\<not> uploading s"
    using that
    by (simp add: handleUpload_def handleUpload_pre_def uploading_handleUpload_post
        split: list.split option.split)
  show "\<not> uploading (app c)" if "reachable E c \<and> in_flight c = 0"
    using that client_invariant [of E c] by auto
qed

theorem uploading_always_reset_witness:
  "fileList salad_selected = salad_entry # [] \<and> originFileObj salad_entry = Some small_png
   \<and> uploading (fst (handleUpload nat_engine (FetchRejects ''Failed to fetch'')
                       salad_selected)) = False
   \<and> uploading (fst (handleUpload nat_engine (FetchResolves bad_gateway_response)
                       salad_selected)) = False
   \<and> uploading (fst (handleUpload nat_engine (FetchResolves rice_response)
                       salad_selected)) = False
   \<and> reachable nat_engine failed_client \<and> in_flight failed_client = 0
   \<and> \<not> uploading (app failed_client)"
proof -
  have selected: "fileList salad_selected = salad_entry # []
      \<and> originFileObj salad_entry = Some small_png"
    by (simp add: salad_selected_eq salad_entry_def)
  have idle: "reachable nat_engine failed_client \<and> in_flight failed_client = 0"
    using failed_client_reachable by (simp add: failed_client_def)
  from selected idle
    uploading_always_reset
      [of nat_engine "FetchRejects ''Failed to fetch''" salad_selected salad_entry "[]"
          small_png failed_client]
    uploading_always_reset
      [of nat_engine "FetchResolves bad_gateway_response" salad_selected salad_entry "[]"
          small_png failed_client]
    uploading_always_reset
      [of nat_engine "FetchResolves rice_response" salad_selected salad_entry "[]"
          small_png failed_client]
  show ?thesis by blast
qed

text \<open>
  C6. When a file is selected and the request is answered with status 200 and a body
  that is a valid \<open>AnalysisResult\<close>, the invocation ends with that body as the
  result, no error, and \<open>uploading\<close> false. The same holds in the running client,
  whatever happened while the request was in flight: when such a response settles a
  pending request, the body becomes the result and no error is stored.
\<close>

theorem handleUpload_success:
  assumes "response_status r = 200" and "response_json r = JsonResolves body"
    and "as_AnalysisResult body = Some analysis"
  shows
  "(fileList s = file # rest \<and> originFileObj file = Some blob \<longrightarrow>
      result (fst (handleUpload E (FetchResolves r) s)) = body
      \<and> as_AnalysisResult (result (fst (handleUpload E (FetchResolves r) s))) = Some analysis
      \<and> error (fst (handleUpload E (FetchResolves r) s)) = None
      \<and> uploading (fst (handleUpload E (FetchResolves r) s)) = False)
   \<and> (reachable E c \<and> 0 < in_flight c \<longrightarrow>
        result (handleUpload_post E (FetchResolves r) (app c)) = body
        \<and> error (handleUpload_post E (FetchResolves r) (app c)) = None
        \<and> uploading (handleUpload_post E (FetchResolves r) (app c)) = False)"
proof (intro conjI impI)
  have post: "handleUpload_post E (FetchResolves r) t = t\<lparr>result := body, uploading := False\<rparr>"
    for t :: "'a app_state"
    using assms by (simp add: handleUpload_post_def response_ok_def finally_block_def)
  {
    assume "fileList s = file # rest \<and> originFileObj file = Some blob"
    then have whole: "fst (handleUpload E (FetchResolves r) s) =
        s\<lparr>uploading := True, error := None, result := body, uploading := False\<rparr>"
      by (simp add: handleUpload_def handleUpload_pre_blob post)
    show "result (fst (handleUpload E (FetchResolves r) s)) = body"
      by (simp add: whole)
    show "as_AnalysisResult (result (fst (handleUpload E (FetchResolves r) s))) = Some analysis"
      using assms(3) by (simp add: whole)
    show "error (fst (handleUpload E (FetchResolves r) s)) = None"
      by (simp add: whole)
    show "uploading (fst (handleUpload E (FetchResolves r) s)) = False"
      by (simp add: whole)
  }
  {
    assume "reachable E c \<and> 0 < in_flight c"
    then have "error (app c) = None"
      using client_invariant [of E c] by simp
    then show "error (handleUpload_post E (FetchResolves r) (app c)) = None"
      by (simp add: post)
    show "result (handleUpload_post E (FetchResolves r) (app c)) = body"
      by (simp add: post)
    show "uploading (handleUpload_post E (FetchResolves r) (app c)) = False"
      by (simp add: post)
  }
qed

theorem handleUpload_success_witness:
  "response_status rice_response = 200
   \<and> as_AnalysisResult rice_body =
       Some \<lparr>detected_food = [''rice''], main_ingredient = ''rice'',
             nutrition_info =
               \<lparr>info_name = ''rice'', calories = 130, protein = 3, carbs = 28, fats = 0,
                info_error = None\<rparr>,
             healthier_alternative = ''brown rice''\<rparr>
   \<and> result (fst (handleUpload nat_engine (FetchResolves rice_response)
                    (salad_selected\<lparr>error := Some ''Error 500''\<rparr>))) = rice_body
   \<and> error (fst (handleUpload nat_engine (FetchResolves rice_response)
                   (salad_selected\<lparr>error := Some ''Error 500''\<rparr>))) = None
   \<and> reachable nat_engine
       \<lparr>app = salad_selected\<lparr>uploading := True, error := None\<rparr>, reading = 1,
        in_flight = 1\<rparr>
   \<and> result (handleUpload_post nat_engine (FetchResolves rice_response)
               (salad_selected\<lparr>uploading := True, error := None\<rparr>)) = rice_body
   \<and> error (handleUpload_post nat_engine (FetchResolves rice_response)
              (salad_selected\<lparr>uploading := True, error := None\<rparr>)) = None"
proof -
  let ?analysis = "\<lparr>detected_food = [''rice''], main_ingredient = ''rice'',
      nutrition_info =
        \<lparr>info_name = ''rice'', calories = 130 :: nat, protein = 3, carbs = 28, fats = 0,
         info_error = None\<rparr>,
      healthier_alternative = ''brown rice''\<rparr>"
  let ?sent = "\<lparr>app = salad_selected\<lparr>uploading := True, error := None\<rparr>, reading = 1,
      in_flight = 1 :: nat\<rparr>"
  have ok: "response_status rice_response = 200"
    and body: "response_json rice_response = JsonResolves rice_body"
    by (simp_all add: rice_response_def)
  have valid: "as_AnalysisResult rice_body = Some ?analysis"
    by (simp add: rice_body_def)
  have selected: "fileList (salad_selected\<lparr>error := Some ''Error 500''\<rparr>) = salad_entry # []
      \<and> originFileObj salad_entry = Some small_png"
    by (simp add: salad_selected_eq salad_entry_def)
  have pending: "reachable nat_engine ?sent \<and> 0 < in_flight ?sent"
    using salad_sent_reachable by simp
  from handleUpload_success
      [OF ok body valid, of "salad_selected\<lparr>error := Some ''Error 500''\<rparr>" salad_entry "[]"
          small_png nat_engine ?sent]
    selected pending ok valid
  show ?thesis by simp
qed

text \<open>
  What a failed response leaves behind when its body keeps to the contract of the
  endpoint: the result is cleared, and the error is the \<open>message\<close> field if that is a
  non-empty string, otherwise the \<open>error\<close> field if that is a non-empty string,
  otherwise ``Error '' followed by the status. The last case covers the body that does
  not parse and the body that is not an object, \<open>null\<close> included.
\<close>

theorem failed_response_error_contract:
  assumes "\<not> response_ok r"
  shows
  "result (handleUpload_post E (FetchResolves r) s) = JNull
   \<and> (response_json r = JsonRejects e \<longrightarrow>
        error (handleUpload_post E (FetchResolves r) s) =
          Some (''Error '' @ string_of_nat (response_status r)))
   \<and> (response_json r = JsonResolves d \<and> (\<forall>kvs. d \<noteq> JObj kvs) \<longrightarrow>
        error (handleUpload_post E (FetchResolves r) s) =
          Some (''Error '' @ string_of_nat (response_status r)))
   \<and> (response_json r = JsonResolves (JObj kvs)
        \<and> map_of kvs ''message'' = Some (JStr m) \<and> m \<noteq> [] \<longrightarrow>
        error (handleUpload_post E (FetchResolves r) s) = Some m)
   \<and> (response_json r = JsonResolves (JObj kvs)
        \<and> (map_of kvs ''message'' = None \<or> map_of kvs ''message'' = Some (JStr []))
        \<and> map_of kvs ''error'' = Some (JStr w) \<and> w \<noteq> [] \<longrightarrow>
        error (handleUpload_post E (FetchResolves r) s) = Some w)
   \<and> (response_json r = JsonResolves (JObj kvs)
        \<and> (map_of kvs ''message'' = None \<or> map_of kvs ''message'' = Some (JStr []))
        \<and> (map_of kvs ''error'' = None \<or> map_of kvs ''error'' = Some (JStr [])) \<longrightarrow>
        error (handleUpload_post E (FetchResolves r) s) =
          Some (''Error '' @ string_of_nat (response_status r)))"
proof (intro conjI impI)
  note post = handleUpload_post_failed [OF assms]
  show "result (handleUpload_post E (FetchResolves r) s) = JNull"
    by (simp add: post)
  show "error (handleUpload_post E (FetchResolves r) s) =
      Some (''Error '' @ string_of_nat (response_status r))"
    if "response_json r = JsonRejects e"
    using that by (simp add: post errorMessage_def to_string_status_text)
  show "error (handleUpload_post E (FetchResolves r) s) =
      Some (''Error '' @ string_of_nat (response_status r))"
    if "response_json r = JsonResolves d \<and> (\<forall>kvs. d \<noteq> JObj kvs)"
    using that by (simp add: post errorMessage_not_object to_string_status_text)
  show "error (handleUpload_post E (FetchResolves r) s) = Some m"
    if "response_json r = JsonResolves (JObj kvs)
        \<and> map_of kvs ''message'' = Some (JStr m) \<and> m \<noteq> []"
    using that by (simp add: post errorMessage_object)
  show "error (handleUpload_post E (FetchResolves r) s) = Some w"
    if "response_json r = JsonResolves (JObj kvs)
        \<and> (map_of kvs ''message'' = None \<or> map_of kvs ''message'' = Some (JStr []))
        \<and> map_of kvs ''error'' = Some (JStr w) \<and> w \<noteq> []"
    using that by (auto simp add: post errorMessage_object)
  show "error (handleUpload_post E (FetchResolves r) s) =
      Some (''Error '' @ string_of_nat (response_status r))"
    if "response_json r = JsonResolves (JObj kvs)
        \<and> (map_of kvs ''message'' = None \<or> map_of kvs ''message'' = Some (JStr []))
        \<and> (map_of kvs ''error'' = None \<or> map_of kvs ''error'' = Some (JStr []))"
    using that by (auto simp add: post errorMessage_object to_string_status_text)
qed

theorem failed_response_error_contract_witness:
  "\<not> response_ok no_food_response
   \<and> result (handleUpload_post nat_engine (FetchResolves no_food_response)
               (salad_selected\<lparr>result := rice_body\<rparr>)) = JNull
   \<and> error (handleUpload_post nat_engine (FetchResolves no_food_response)
              (salad_selected\<lparr>result := rice_body\<rparr>)) = Some ''no food detected''
   \<and> \<not> response_ok quota_response
   \<and> error (handleUpload_post nat_engine (FetchResolves quota_response)
              (salad_selected\<lparr>result := rice_body\<rparr>)) = Some ''quota exceeded''
   \<and> \<not> response_ok bad_gateway_response
   \<and> error (handleUpload_post nat_engine (FetchResolves bad_gateway_response)
              (salad_selected\<lparr>result := rice_body\<rparr>)) = Some ''Error 502''
   \<and> \<not> response_ok null_body_response
   \<and> error (handleUpload_post nat_engine (FetchResolves null_body_response)
              (salad_selected\<lparr>result := rice_body\<rparr>)) = Some ''Error 500''
   \<and> \<not> response_ok empty_object_response
   \<and> error (handleUpload_post nat_engine (FetchResolves empty_object_response)
              (salad_selected\<lparr>result := rice_body\<rparr>)) = Some ''Error 500''"
proof -
  let ?s = "salad_selected\<lparr>result := rice_body\<rparr>"
  have failed: "\<not> response_ok no_food_response" "\<not> response_ok quota_response"
    "\<not> response_ok bad_gateway_response" "\<not> response_ok null_body_response"
    "\<not> response_ok empty_object_response"
    by (simp_all add: response_ok_def no_food_response_def quota_response_def
        bad_gateway_response_def null_body_response_def empty_object_response_def)
  have "response_json no_food_response =
      JsonResolves (JObj [(''message'', JStr ''no food detected'')])
    \<and> map_of [(''message'', JStr ''no food detected'')] ''message'' =
        Some (JStr ''no food detected'' :: nat json)
    \<and> ''no food detected'' \<noteq> []"
    by (simp add: no_food_response_def)
  with failed_response_error_contract
      [OF failed(1), of nat_engine ?s _ _
          "[(''message'', JStr ''no food detected'')]" "''no food detected''"]
  have message: "result (handleUpload_post nat_engine (FetchResolves no_food_response) ?s) = JNull
    \<and> error (handleUpload_post nat_engine (FetchResolves no_food_response) ?s) =
        Some ''no food detected''"
    by simp
  have "response_json quota_response =
      JsonResolves (JObj [(''message'', JStr []), (''error'', JStr ''quota exceeded'')])
    \<and> map_of [(''message'', JStr []), (''error'', JStr ''quota exceeded'')] ''message'' =
        Some (JStr [] :: nat json)
    \<and> map_of [(''message'', JStr []), (''error'', JStr ''quota exceeded'')] ''error'' =
        Some (JStr ''quota exceeded'' :: nat json)
    \<and> ''quota exceeded'' \<noteq> []"
    by (simp add: quota_response_def)
  with failed_response_error_contract
      [OF failed(2), of nat_engine ?s _ _
          "[(''message'', JStr []), (''error'', JStr ''quota exceeded'')]" _
          "''quota exceeded''"]
  have field: "error (handleUpload_post nat_engine (FetchResolves quota_response) ?s) =
      Some ''quota exceeded''"
    by simp
  have "response_json bad_gateway_response = JsonRejects ''Unexpected token <''"
    by (simp add: bad_gateway_response_def)
  with failed_response_error_contract [OF failed(3), of nat_engine ?s "''Unexpected token <''"]
  have unparsed: "error (handleUpload_post nat_engine (FetchResolves bad_gateway_response) ?s) =
      Some ''Error 502''"
    by (simp add: bad_gateway_response_def string_of_status_502)
  have "response_json null_body_response = JsonResolves JNull
    \<and> (\<forall>kvs. (JNull :: nat json) \<noteq> JObj kvs)"
    by (simp add: null_body_response_def)
  with failed_response_error_contract [OF failed(4), of nat_engine ?s _ JNull]
  have null: "error (handleUpload_post nat_engine (FetchResolves null_body_response) ?s) =
      Some ''Error 500''"
    by (simp add: null_body_response_def string_of_status_500)
  have "response_json empty_object_response = JsonResolves (JObj [])
    \<and> map_of ([] :: (string \<times> nat json) list) ''message'' = None
    \<and> map_of ([] :: (string \<times> nat json) list) ''error'' = None"
    by (simp add: empty_object_response_def)
  with failed_response_error_contract [OF failed(5), of nat_engine ?s _ _ "[]"]
  have empty: "error (handleUpload_post nat_engine (FetchResolves empty_object_response) ?s) =
      Some ''Error 500''"
    by (simp add: empty_object_response_def string_of_status_500)
  from failed message field unparsed null empty show ?thesis
    by blast
qed

text \<open>
  C5. For every response with a status outside 200-299 the error is to be the
  \<open>message\<close> field of the parsed body if available, otherwise its \<open>error\<close> field,
  otherwise ``Error '' followed by the status, the body that does not parse included.
  The code breaks this where the field it picks is not a string. Line 115 takes any
  truthy value, and \<open>new Error\<close> in line 119 converts it with ToString outside the
  inner \<open>try\<close>/\<open>catch\<close>: for the body \<open>{"message": {"toString": 1}}\<close> with status 500
  the conversion throws, and the TypeError's own text becomes the error. The inner
  \<open>catch\<close> gives ``Error 500'' for the body that does not parse and for the body
  \<open>null\<close>, where reading the field throws.
\<close>

theorem failed_response_unprintable_message:
  "\<not> response_ok unprintable_message_response
   \<and> error (fst (handleUpload nat_engine (FetchResolves unprintable_message_response)
                 salad_selected)) =
       Some ''Cannot convert object to primitive value''
   \<and> ''Cannot convert object to primitive value'' \<noteq> ''Error '' @ string_of_nat 500
   \<and> error (fst (handleUpload nat_engine (FetchResolves null_body_response)
                   salad_selected)) = Some ''Error 500''"
  by (simp add: salad_selected_eq handleUpload_def handleUpload_pre_def salad_entry_def
      handleUpload_post_def unprintable_message_response_def null_body_response_def
      response_ok_def errorMessage_def nat_engine_def catch_block_def finally_block_def
      status_text_def string_of_status_500)

subsection \<open>Rendering\<close>

text \<open>
  C7. When the result is a valid \<open>AnalysisResult\<close>, the results section is rendered
  with the list of detected foods, the main ingredient and the alternative, and its
  nutrition part is
  \<^item> the error text alone when \<open>nutrition_info.error\<close> is a non-empty string;
  \<^item> otherwise the name and the four statistics Calories, Protein, Carbs and Fats with
    the suffixes kcal, g, g, g.
  The test is \<open>result.nutrition_info.error ? ... : ...\<close>, so an error that is set to the
  empty string counts as no error: the numbers are shown.
\<close>

theorem nutrition_rendering:
  assumes "as_AnalysisResult (result s) = Some a"
  shows "\<exists>v rv. render E s = Return v \<and> results v = ResultsSection rv
    \<and> detected_foods rv = Some (JArr (map JStr (detected_food a)))
    \<and> main_ingredient_text rv = Some (JStr (main_ingredient a))
    \<and> alternative_text rv = Some (JStr (healthier_alternative a))
    \<and> nutrition rv =
        (case info_error (nutrition_info a) of
           Some e \<Rightarrow>
             if e \<noteq> [] then NutritionError (Some (JStr e))
             else NutritionInformation (Some (JStr (info_name (nutrition_info a))))
               [(''Calories'', Some (JNum (calories (nutrition_info a))), ''kcal''),
                (''Protein'', Some (JNum (protein (nutrition_info a))), ''g''),
                (''Carbs'', Some (JNum (carbs (nutrition_info a))), ''g''),
                (''Fats'', Some (JNum (fats (nutrition_info a))), ''g'')]
         | None \<Rightarrow>
             NutritionInformation (Some (JStr (info_name (nutrition_info a))))
               [(''Calories'', Some (JNum (calories (nutrition_info a))), ''kcal''),
                (''Protein'', Some (JNum (protein (nutrition_info a))), ''g''),
                (''Carbs'', Some (JNum (carbs (nutrition_info a))), ''g''),
                (''Fats'', Some (JNum (fats (nutrition_info a))), ''g'')])"
proof -
  from assms obtain kvs where d: "result s = JObj kvs"
    and "map_of kvs ''detected_food'' = Some (JArr (map JStr (detected_food a)))"
    and "map_of kvs ''main_ingredient'' = Some (JStr (main_ingredient a))"
    and info: "as_NutritionInfo (map_of kvs ''nutrition_info'') = Some (nutrition_info a)"
    and "map_of kvs ''healthier_alternative'' = Some (JStr (healthier_alternative a))"
    using as_AnalysisResult_Some by blast
  then show ?thesis
    by (simp add: render_def render_results_def render_nutrition_valid [OF info])
qed

theorem nutrition_rendering_witness:
  "as_AnalysisResult (result (salad_selected\<lparr>result := unknown_food_body\<rparr>)) =
     Some \<lparr>detected_food = [], main_ingredient = ''unknown'',
           nutrition_info =
             \<lparr>info_name = ''unknown'', calories = 0, protein = 0, carbs = 0, fats = 0,
              info_error = Some ''Nutrition data not found''\<rparr>,
           healthier_alternative = ''none''\<rparr>
   \<and> (\<exists>v rv. render nat_engine (salad_selected\<lparr>result := unknown_food_body\<rparr>) = Return v
         \<and> results v = ResultsSection rv
         \<and> detected_foods rv = Some (JArr [])
         \<and> nutrition rv = NutritionError (Some (JStr ''Nutrition data not found'')))"
proof -
  have valid: "as_AnalysisResult (result (salad_selected\<lparr>result := unknown_food_body\<rparr>)) =
     Some \<lparr>detected_food = [], main_ingredient = ''unknown'',
           nutrition_info =
             \<lparr>info_name = ''unknown'', calories = 0, protein = 0, carbs = 0, fats = 0,
              info_error = Some ''Nutrition data not found''\<rparr>,
           healthier_alternative = ''none''\<rparr>"
    by (simp add: unknown_food_body_def)
  from nutrition_rendering [OF valid, of nat_engine] valid show ?thesis
    by auto
qed

theorem blank_nutrition_error_shows_numbers:
  "as_AnalysisResult blank_error_body =
     Some \<lparr>detected_food = [''rice''], main_ingredient = ''rice'',
           nutrition_info =
             \<lparr>info_name = ''rice'', calories = 130, protein = 3, carbs = 28, fats = 0,
              info_error = Some []\<rparr>,
           healthier_alternative = ''brown rice''\<rparr>
   \<and> result (fst (handleUpload nat_engine (FetchResolves blank_error_response)
                    salad_selected)) = blank_error_body
   \<and> render nat_engine
       (fst (handleUpload nat_engine (FetchResolves blank_error_response) salad_selected)) =
     Return
       \<lparr>upload_fileList = [salad_entry], upload_button = None,
        analyze_disabled = False, analyze_loading = False,
        analyze_label = ''Analyze Food'', error_section = None,
        results =
          ResultsSection
            \<lparr>detected_foods = Some (JArr [JStr ''rice'']),
             main_ingredient_text = Some (JStr ''rice''),
             nutrition =
               NutritionInformation (Some (JStr ''rice''))
                 [(''Calories'', Some (JNum 130), ''kcal''),
                  (''Protein'', Some (JNum 3), ''g''),
                  (''Carbs'', Some (JNum 28), ''g''), (''Fats'', Some (JNum 0), ''g'')],
             alternative_text = Some (JStr ''brown rice''),
             food_image = None\<rparr>\<rparr>"
proof -
  have after: "fst (handleUpload nat_engine (FetchResolves blank_error_response)
      salad_selected) =
    \<lparr>fileList = [salad_entry], uploading = False, imageUrl = None,
     result = blank_error_body, error = None\<rparr>"
    by (simp add: salad_selected_eq handleUpload_def handleUpload_pre_def salad_entry_def
        handleUpload_post_def blank_error_response_def response_ok_def finally_block_def)
  show ?thesis
    unfolding after
    by (simp add: blank_error_body_def render_def render_results_def render_nutrition_def
        nat_engine_def)
qed

text \<open>
  In every reachable state an error that is stored comes with the null result, so the
  rendering has no results section; the error section is rendered exactly when the
  stored error is not the empty string. Hence no rendering of a reachable state has
  both an error section and a results section.
\<close>

theorem error_excludes_results:
  "(reachable E c \<and> error (app c) = Some msg \<longrightarrow>
      result (app c) = JNull
      \<and> (\<exists>v. render E (app c) = Return v
            \<and> results v = NoSection JNull
            \<and> error_section v = (if msg = [] then None else Some msg)))
   \<and> (reachable E c \<and> render E (app c) = Return shown \<longrightarrow>
        \<not> (error_section shown \<noteq> None \<and> (\<exists>rv. results shown = ResultsSection rv)))"
proof (intro conjI impI)
  assume a: "reachable E c \<and> error (app c) = Some msg"
  then show null: "result (app c) = JNull"
    using client_invariant [of E c] by simp
  show "\<exists>v. render E (app c) = Return v \<and> results v = NoSection JNull
      \<and> error_section v = (if msg = [] then None else Some msg)"
    using render_without_result [OF null, of E] a by simp
next
  assume b: "reachable E c \<and> render E (app c) = Return shown"
  show "\<not> (error_section shown \<noteq> None \<and> (\<exists>rv. results shown = ResultsSection rv))"
  proof
    assume both: "error_section shown \<noteq> None \<and> (\<exists>rv. results shown = ResultsSection rv)"
    with b have "error (app c) \<noteq> None"
      by (auto simp add: render_error_section split: option.splits)
    with b have "result (app c) = JNull"
      using client_invariant [of E c] by simp
    then obtain v where "render E (app c) = Return v" and "results v = NoSection JNull"
      using render_without_result [of "app c" E] by blast
    with b both show False by auto
  qed
qed

theorem error_excludes_results_witness:
  "reachable nat_engine failed_client
   \<and> error (app failed_client) = Some ''no food detected''
   \<and> result (app failed_client) = JNull
   \<and> render nat_engine (app failed_client) =
       Return \<lparr>upload_fileList = [salad_entry], upload_button = None,
               analyze_disabled = False, analyze_loading = False,
               analyze_label = ''Analyze Food'', error_section = Some ''no food detected'',
               results = NoSection JNull\<rparr>
   \<and> (\<exists>v. render nat_engine (app failed_client) = Return v
         \<and> results v = NoSection JNull
         \<and> error_section v = Some ''no food detected'')"
proof -
  let ?shown = "\<lparr>upload_fileList = [salad_entry], upload_button = None,
      analyze_disabled = False, analyze_loading = False,
      analyze_label = ''Analyze Food'', error_section = Some ''no food detected'',
      results = (NoSection JNull :: nat results_slot)\<rparr>"
  have stored: "reachable nat_engine failed_client
      \<and> error (app failed_client) = Some ''no food detected''"
    using failed_client_reachable by (simp add: failed_client_def)
  have shown: "render nat_engine (app failed_client) = Return ?shown"
    by (simp add: failed_client_def render_def render_results_def)
  from error_excludes_results [of nat_engine failed_client "''no food detected''" ?shown]
    stored shown
  show ?thesis by simp
qed

text \<open>
  When every request settles within the contract of the endpoint, a stored error is
  never empty: it is shown, and no results section with it.
\<close>

theorem error_shown_under_contract:
  "contract_reachable E c \<and> error (app c) = Some msg \<longrightarrow>
     msg \<noteq> [] \<and> result (app c) = JNull
     \<and> (\<exists>v. render E (app c) = Return v
           \<and> error_section v = Some msg
           \<and> results v = NoSection JNull)"
proof
  assume a: "contract_reachable E c \<and> error (app c) = Some msg"
  then have nonempty: "msg \<noteq> []"
    using contract_error_invariant [of E c] by auto
  from a have "reachable E c \<and> error (app c) = Some msg"
    by (simp add: contract_reachable_reachable)
  with error_excludes_results [of E c msg] nonempty
  show "msg \<noteq> [] \<and> result (app c) = JNull
     \<and> (\<exists>v. render E (app c) = Return v
           \<and> error_section v = Some msg
           \<and> results v = NoSection JNull)"
    by auto
qed

theorem error_shown_under_contract_witness:
  "contract_reachable nat_engine failed_client
   \<and> error (app failed_client) = Some ''no food detected''
   \<and> (\<exists>v. render nat_engine (app failed_client) = Return v
         \<and> error_section v = Some ''no food detected''
         \<and> results v = NoSection JNull)"
proof -
  let ?picked = "\<lparr>app = salad_selected, reading = 1, in_flight = 0 :: nat\<rparr>"
  let ?sent = "\<lparr>app = salad_selected\<lparr>uploading := True, error := None\<rparr>, reading = 1,
      in_flight = 1 :: nat\<rparr>"
  from quiet_step.picks [of "''blob:1''" small_png initial_client LIST_IGNORE salad_selected
      "[ReadAsDataURL small_png]" nat_engine]
  have "quiet_step nat_engine initial_client ?picked"
    by (simp add: initial_client_def salad_selected_def beforeUpload_accepted
        small_png_admissible)
  with contract_reachable.quiet_start [of nat_engine]
  have picked: "contract_reachable nat_engine ?picked"
    by (rule contract_reachable.quiet_move)
  have "analyze_clickable nat_engine (app ?picked)"
    by (simp add: analyze_clickable_def render_def render_results_def salad_selected_eq)
  from quiet_step.submits [OF this, of "salad_selected\<lparr>uploading := True, error := None\<rparr>"
      "[Fetch ''/api/analyze'' ''POST'' [(''image'', FileValue small_png)]]" True]
  have "quiet_step nat_engine ?picked ?sent"
    by (simp add: handleUpload_pre_def salad_selected_eq salad_entry_def)
  with picked have sent: "contract_reachable nat_engine ?sent"
    by (rule contract_reachable.quiet_move)
  have "keeps_contract (FetchResolves no_food_response)"
    by (simp add: keeps_contract_def no_food_response_def response_ok_def)
  from contract_reachable.kept_settle [OF sent _ this]
  have reached: "contract_reachable nat_engine failed_client"
    by (simp add: failed_client_def salad_selected_eq handleUpload_post_def
        no_food_response_def response_ok_def errorMessage_def nat_engine_def
        catch_block_def finally_block_def)
  moreover have stored: "error (app failed_client) = Some ''no food detected''"
    by (simp add: failed_client_def)
  ultimately show ?thesis
    using error_shown_under_contract [of nat_engine failed_client "''no food detected''"]
    by simp
qed

text \<open>
  C8. In every reachable state of the client a stored error is to be shown, with no
  results section. No reachable state shows both, and within the contract of the
  endpoint the error is shown. The code breaks this where the server answers a
  failure with a \<open>message\<close> that is no string. The chain of \<open>||\<close> in line 115 keeps
  the message from being empty (an empty \<open>message\<close> falls through to ``Error '' and
  the status), but the empty array is truthy and \<open>new Error([])\<close> has the empty
  message: with the body \<open>{"message": []}\<close> and status 500 the client stores the error
  \<open>""\<close>, and \<open>{error && (...)}\<close> renders nothing for it. The submission has failed and
  the page shows neither an error nor a result.
\<close>

theorem empty_error_is_not_shown:
  "reachable nat_engine silent_error_client
   \<and> error (app silent_error_client) = Some []
   \<and> render nat_engine (app silent_error_client) =
       Return \<lparr>upload_fileList = [salad_entry], upload_button = None,
               analyze_disabled = False, analyze_loading = False,
               analyze_label = ''Analyze Food'', error_section = None,
               results = NoSection JNull\<rparr>"
  by (simp add: silent_error_client_reachable)
    (simp add: silent_error_client_def render_def render_results_def)

end
